theory Spec2Isabelle
  imports Complex_Main "HOL-Library.Word"
begin

section \<open>Python values\<close>

text \<open>
  The manager of \<^verbatim>\<open>src/kpilexifmanager/pilexifmgr.py\<close> keeps the metadata of an image
  in nested Python dictionaries: \<^verbatim>\<open>metadata['GPS'][tag]\<close>. The embedding keeps the
  dynamic typing that the code relies on: a value is one of the shapes below, a
  dictionary is an association list in insertion order, and every operation that
  raises in Python returns the exception as a value (\<open>Inl\<close>).

  A Python \<^verbatim>\<open>str\<close> is a list of code points (\<open>nat\<close>), since the codecs the code calls
  work on code points; \<^verbatim>\<open>bytes\<close> is a list of 8-bit words. A Python \<^verbatim>\<open>float\<close> is
  modelled by the real number it stands for: rounding is left out.
\<close>

datatype error =
    AssertionError
  | KeyError
  | IndexError
  | TypeError
  | ValueError
  | AttributeError
  | ZeroDivisionError
  | UnicodeEncodeError
  | UnicodeDecodeError
  | OverflowError
  | MemoryError
  | OSError

text \<open>\<^verbatim>\<open>except ValueError\<close> also catches the two Unicode errors, its subclasses.\<close>

fun is_ValueError :: "error \<Rightarrow> bool" where
  "is_ValueError ValueError = True"
| "is_ValueError UnicodeEncodeError = True"
| "is_ValueError UnicodeDecodeError = True"
| "is_ValueError _ = False"

type_synonym pystr = "nat list"
type_synonym pybytes = "8 word list"

datatype pykey = KInt int | KStr pystr

datatype pyval =
    PNone
  | PBool bool
  | PInt int
  | PFloat real
  | PStr pystr
  | PBytes pybytes
  | PTuple "pyval list"
  | PList "pyval list"
  | PDict "(pykey \<times> pyval) list"

type_synonym pydict = "(pykey \<times> pyval) list"

text \<open>A string literal of the source, as code points.\<close>

definition lit :: "string \<Rightarrow> pystr" where
  "lit s = map of_char s"

subsection \<open>Dictionaries\<close>

text \<open>
  \<^verbatim>\<open>d[k]\<close> is \<open>map_of d k\<close>. \<^verbatim>\<open>d[k] = v\<close> replaces the value of a key in place and
  appends a new key at the end.
\<close>

fun dict_set :: "('k \<times> 'v) list \<Rightarrow> 'k \<Rightarrow> 'v \<Rightarrow> ('k \<times> 'v) list" where
  "dict_set [] k v = [(k, v)]"
| "dict_set ((k', v') # d) k v =
     (if k' = k then (k, v) # d else (k', v') # dict_set d k v)"

subsection \<open>Subscripts, membership and comparison\<close>

text \<open>
  The position a Python index stands for in a sequence of \<open>len\<close> elements: an index
  from \<open>- len\<close> to \<open>-1\<close> counts from the end, and an index outside
  \<open>- len, ..., len - 1\<close> has no position.
\<close>

definition norm_index :: "nat \<Rightarrow> int \<Rightarrow> nat option" where
  "norm_index len i =
     (if 0 \<le> i \<and> i < int len then Some (nat i)
      else if i < 0 \<and> - int len \<le> i then Some (nat (int len + i))
      else None)"

definition seq_index :: "'a list \<Rightarrow> int \<Rightarrow> error + 'a" where
  "seq_index xs i =
     (case norm_index (length xs) i of None \<Rightarrow> Inl IndexError | Some pos \<Rightarrow> Inr (xs ! pos))"

text \<open>\<^verbatim>\<open>v[k]\<close> for a key that is an integer or a string.\<close>

fun py_getitem :: "pyval \<Rightarrow> pykey \<Rightarrow> error + pyval" where
  "py_getitem (PDict d) k = (case map_of d k of None \<Rightarrow> Inl KeyError | Some v \<Rightarrow> Inr v)"
| "py_getitem (PTuple xs) (KInt i) = seq_index xs i"
| "py_getitem (PList xs) (KInt i) = seq_index xs i"
| "py_getitem (PStr s) (KInt i) = map_sum id (\<lambda>c. PStr [c]) (seq_index s i)"
| "py_getitem (PBytes b) (KInt i) = map_sum id (\<lambda>w. PInt (uint w)) (seq_index b i)"
| "py_getitem _ _ = Inl TypeError"

text \<open>\<^verbatim>\<open>c[k] = v\<close>: only dictionaries and lists support item assignment.\<close>

fun py_setitem :: "pyval \<Rightarrow> pykey \<Rightarrow> pyval \<Rightarrow> error + pyval" where
  "py_setitem (PDict d) k v = Inr (PDict (dict_set d k v))"
| "py_setitem (PList xs) (KInt i) v =
     (case norm_index (length xs) i of
        None \<Rightarrow> Inl IndexError
      | Some pos \<Rightarrow> Inr (PList (xs[pos := v])))"
| "py_setitem _ _ _ = Inl TypeError"

text \<open>\<^verbatim>\<open>v == i\<close> for an integer \<open>i\<close>: \<^verbatim>\<open>True == 1\<close> and \<^verbatim>\<open>1.0 == 1\<close> hold in Python.\<close>

fun py_eq_int :: "pyval \<Rightarrow> int \<Rightarrow> bool" where
  "py_eq_int (PInt j) i = (j = i)"
| "py_eq_int (PBool b) i = ((if b then 1 else 0) = i)"
| "py_eq_int (PFloat r) i = (r = of_int i)"
| "py_eq_int _ i = False"

text \<open>\<^verbatim>\<open>v == b'...'\<close>: a \<^verbatim>\<open>str\<close> never equals a \<^verbatim>\<open>bytes\<close> object.\<close>

fun py_eq_bytes :: "pyval \<Rightarrow> pybytes \<Rightarrow> bool" where
  "py_eq_bytes (PBytes b) c = (b = c)"
| "py_eq_bytes _ c = False"

fun key_eq :: "pykey \<Rightarrow> pyval \<Rightarrow> bool" where
  "key_eq (KInt i) v = py_eq_int v i"
| "key_eq (KStr s) v = (v = PStr s)"

text \<open>\<^verbatim>\<open>t in s\<close> on strings is the substring test.\<close>

fun is_substr :: "'a list \<Rightarrow> 'a list \<Rightarrow> bool" where
  "is_substr t [] = (t = [])"
| "is_substr t (c # cs) = (take (length t) (c # cs) = t \<or> is_substr t cs)"

text \<open>\<^verbatim>\<open>k in v\<close> for a key that is an integer or a string.\<close>

fun py_contains :: "pykey \<Rightarrow> pyval \<Rightarrow> error + bool" where
  "py_contains k (PDict d) = Inr (map_of d k \<noteq> None)"
| "py_contains k (PTuple xs) = Inr (list_ex (key_eq k) xs)"
| "py_contains k (PList xs) = Inr (list_ex (key_eq k) xs)"
| "py_contains (KStr t) (PStr s) = Inr (is_substr t s)"
| "py_contains (KInt i) (PBytes b) =
     (if 0 \<le> i \<and> i < 256 then Inr (of_int i \<in> set b) else Inl ValueError)"
| "py_contains _ _ = Inl TypeError"

text \<open>
  True division \<^verbatim>\<open>a / b\<close>, which gives a float. The largest float is
  \<open>2 ^ 1024 - 2 ^ 971\<close>, and a number rounds to a float when its size is below
  \<open>float_limit\<close>, half a step above it.
  \<^item> Of two integers (a \<^verbatim>\<open>bool\<close> is one): \<^verbatim>\<open>ZeroDivisionError\<close> for the divisor 0, and
    \<^verbatim>\<open>OverflowError\<close> when the quotient does not round to a float.
  \<^item> With a float on one side, the integer on the other side is made a float first,
    with \<^verbatim>\<open>OverflowError\<close> when it does not round to one; then \<^verbatim>\<open>ZeroDivisionError\<close>
    for the divisor 0. The quotient of two floats is their real quotient: the values
    \<^verbatim>\<open>inf\<close> and \<^verbatim>\<open>nan\<close> of Python are not values here.
  \<^item> \<^verbatim>\<open>TypeError\<close> when a side is not a number.
\<close>

definition float_limit :: real where
  "float_limit = 2 ^ 1024 - 2 ^ 970"

fun py_integer :: "pyval \<Rightarrow> int option" where
  "py_integer (PInt i) = Some i"
| "py_integer (PBool b) = Some (if b then 1 else 0)"
| "py_integer _ = None"

fun py_float :: "pyval \<Rightarrow> (error + real) option" where
  "py_float (PFloat r) = Some (Inr r)"
| "py_float v =
     (case py_integer v of
        None \<Rightarrow> None
      | Some i \<Rightarrow> Some (if float_limit \<le> \<bar>of_int i\<bar> then Inl OverflowError else Inr (of_int i)))"

definition float_div :: "error + real \<Rightarrow> error + real \<Rightarrow> error + real" where
  "float_div fa fb =
     (case fa of
        Inl e \<Rightarrow> Inl e
      | Inr x \<Rightarrow>
          (case fb of
             Inl e \<Rightarrow> Inl e
           | Inr y \<Rightarrow> if y = 0 then Inl ZeroDivisionError else Inr (x / y)))"

definition py_truediv :: "pyval \<Rightarrow> pyval \<Rightarrow> error + real" where
  "py_truediv a b =
     (case (py_integer a, py_integer b) of
        (Some x, Some y) \<Rightarrow>
          if y = 0 then Inl ZeroDivisionError
          else if float_limit \<le> \<bar>of_int x / of_int y\<bar> then Inl OverflowError
          else Inr (of_int x / of_int y)
      | _ \<Rightarrow>
          (case (py_float a, py_float b) of
             (Some fa, Some fb) \<Rightarrow> float_div fa fb
           | _ \<Rightarrow> Inl TypeError))"

text \<open>\<^verbatim>\<open>int(x)\<close> of a float truncates towards zero.\<close>

definition py_int :: "real \<Rightarrow> int" where
  "py_int x = (if 0 \<le> x then \<lfloor>x\<rfloor> else \<lceil>x\<rceil>)"

text \<open>Sequencing of calls that may raise.\<close>

definition bind_err :: "error + 'a \<Rightarrow> ('a \<Rightarrow> error + 'b) \<Rightarrow> error + 'b" where
  "bind_err r f = (case r of Inl e \<Rightarrow> Inl e | Inr x \<Rightarrow> f x)"

subsection \<open>Strings\<close>

text \<open>
  \<^verbatim>\<open>sep.join(ws)\<close> and \<^verbatim>\<open>s.split(sep)\<close> for a one-character separator, and
  \<^verbatim>\<open>s.split("\x00", maxsplit=1)[0]\<close>, the text before the first NUL.
\<close>

fun py_join :: "nat \<Rightarrow> pystr list \<Rightarrow> pystr" where
  "py_join sep [] = []"
| "py_join sep [w] = w"
| "py_join sep (w # ws) = w @ sep # py_join sep ws"

fun py_split :: "nat \<Rightarrow> pystr \<Rightarrow> pystr list" where
  "py_split sep [] = [[]]"
| "py_split sep (c # cs) =
     (if c = sep then [] # py_split sep cs
      else (case py_split sep cs of [] \<Rightarrow> [[c]] | w # ws \<Rightarrow> (c # w) # ws))"

definition before_nul :: "pystr \<Rightarrow> pystr" where
  "before_nul s = takeWhile (\<lambda>c. c \<noteq> 0) s"

text \<open>
  \<^verbatim>\<open>str.upper\<close>, on the ASCII letters. No character outside ASCII has an upper case
  made of the letters of JPG, JPEG and PNG only, so the membership tests below
  do not depend on the rest of the Unicode case tables.
\<close>

definition upper_cp :: "nat \<Rightarrow> nat" where
  "upper_cp c = (if 97 \<le> c \<and> c \<le> 122 then c - 32 else c)"

definition upper :: "pystr \<Rightarrow> pystr" where
  "upper s = map upper_cp s"

subsection \<open>Paths\<close>

text \<open>
  A \<^verbatim>\<open>pathlib.Path\<close> is its POSIX text. \<^verbatim>\<open>name\<close> is the last component and
  \<^verbatim>\<open>suffix\<close> is the name from its last dot on, unless that dot is the first or the
  last character of the name.
\<close>

definition path_name :: "pystr \<Rightarrow> pystr" where
  "path_name p = rev (takeWhile (\<lambda>c. c \<noteq> 47) (rev p))"

definition path_suffix :: "pystr \<Rightarrow> pystr" where
  "path_suffix p =
     (let name = path_name p;
          ext = rev (takeWhile (\<lambda>c. c \<noteq> 46) (rev name))
      in if 46 \<in> set name \<and> length ext + 1 < length name \<and> ext \<noteq> []
         then 46 # ext else [])"

section \<open>Codecs\<close>

subsection \<open>UTF-16\<close>

text \<open>
  \<^verbatim>\<open>s.encode('utf-16')\<close> writes a byte order mark and then every code unit in the
  byte order of the machine (\<open>little\<close> says it is little-endian). A code point from
  \<^verbatim>\<open>0x10000\<close> on is a pair of surrogates; a surrogate in the string itself cannot be
  encoded.
\<close>

fun utf16_units :: "pystr \<Rightarrow> error + nat list" where
  "utf16_units [] = Inr []"
| "utf16_units (c # cs) =
     (if 0xD800 \<le> c \<and> c \<le> 0xDFFF then Inl UnicodeEncodeError
      else bind_err (utf16_units cs) (\<lambda>us.
        if c < 0x10000 then Inr (c # us)
        else Inr ((0xD800 + (c - 0x10000) div 1024) # (0xDC00 + (c - 0x10000) mod 1024) # us)))"

definition unit_bytes :: "bool \<Rightarrow> nat \<Rightarrow> pybytes" where
  "unit_bytes little u =
     (if little then [of_nat (u mod 256), of_nat (u div 256)]
      else [of_nat (u div 256), of_nat (u mod 256)])"

definition utf16_encode :: "bool \<Rightarrow> pystr \<Rightarrow> error + pybytes" where
  "utf16_encode little s =
     bind_err (utf16_units s) (\<lambda>us.
       Inr (unit_bytes little 0xFEFF @ concat (map (unit_bytes little) us)))"

text \<open>
  \<^verbatim>\<open>b.decode('utf-16')\<close> reads a leading byte order mark, if there is one, and the byte
  order from it; without a mark the byte order is the machine's. An odd number of
  bytes and a surrogate without its partner are errors.
\<close>

fun bytes_units :: "bool \<Rightarrow> pybytes \<Rightarrow> error + nat list" where
  "bytes_units little [] = Inr []"
| "bytes_units little [b] = Inl UnicodeDecodeError"
| "bytes_units little (b0 # b1 # bs) =
     bind_err (bytes_units little bs) (\<lambda>us.
       Inr ((if little then unat b0 + 256 * unat b1 else unat b1 + 256 * unat b0) # us))"

fun units_str :: "nat list \<Rightarrow> error + pystr" where
  "units_str [] = Inr []"
| "units_str (u # us) =
     (if 0xD800 \<le> u \<and> u \<le> 0xDBFF then
        (case us of
           [] \<Rightarrow> Inl UnicodeDecodeError
         | v # vs \<Rightarrow>
             if 0xDC00 \<le> v \<and> v \<le> 0xDFFF
             then bind_err (units_str vs) (\<lambda>cs.
                    Inr ((0x10000 + (u - 0xD800) * 1024 + (v - 0xDC00)) # cs))
             else Inl UnicodeDecodeError)
      else if 0xDC00 \<le> u \<and> u \<le> 0xDFFF then Inl UnicodeDecodeError
      else bind_err (units_str us) (\<lambda>cs. Inr (u # cs)))"

definition decode_units :: "bool \<Rightarrow> pybytes \<Rightarrow> error + pystr" where
  "decode_units little bs = bind_err (bytes_units little bs) units_str"

definition utf16_decode :: "bool \<Rightarrow> pybytes \<Rightarrow> error + pystr" where
  "utf16_decode little bs =
     (case bs of
        b0 # b1 # rest \<Rightarrow>
          if b0 = 0xFF \<and> b1 = 0xFE then decode_units True rest
          else if b0 = 0xFE \<and> b1 = 0xFF then decode_units False rest
          else decode_units little bs
      | _ \<Rightarrow> decode_units little bs)"

subsection \<open>UTF-8\<close>

text \<open>\<^verbatim>\<open>s.encode('utf-8')\<close>: one to four bytes for a code point, none for a surrogate.\<close>

definition utf8_char :: "nat \<Rightarrow> error + pybytes" where
  "utf8_char c =
     (if c < 0x80 then Inr [of_nat c]
      else if c < 0x800 then Inr [of_nat (0xC0 + c div 64), of_nat (0x80 + c mod 64)]
      else if 0xD800 \<le> c \<and> c \<le> 0xDFFF then Inl UnicodeEncodeError
      else if c < 0x10000 then
        Inr [of_nat (0xE0 + c div 4096), of_nat (0x80 + c div 64 mod 64),
             of_nat (0x80 + c mod 64)]
      else
        Inr [of_nat (0xF0 + c div 262144), of_nat (0x80 + c div 4096 mod 64),
             of_nat (0x80 + c div 64 mod 64), of_nat (0x80 + c mod 64)])"

fun utf8_encode :: "pystr \<Rightarrow> error + pybytes" where
  "utf8_encode [] = Inr []"
| "utf8_encode (c # cs) =
     bind_err (utf8_char c) (\<lambda>b. bind_err (utf8_encode cs) (\<lambda>bs. Inr (b @ bs)))"

text \<open>
  \<^verbatim>\<open>b.decode('utf-8')\<close>, on the values of the bytes: a lead byte says how many
  continuation bytes (\<^verbatim>\<open>0x80\<close> to \<^verbatim>\<open>0xBF\<close>) follow; encodings longer than needed,
  surrogates and code points above \<^verbatim>\<open>0x10FFFF\<close> are errors.
\<close>

definition is_cont :: "nat \<Rightarrow> bool" where
  "is_cont b = (0x80 \<le> b \<and> b \<le> 0xBF)"

fun utf8_values :: "nat list \<Rightarrow> error + pystr" where
  "utf8_values [] = Inr []"
| "utf8_values (b0 # bs) =
     (if b0 < 0x80 then bind_err (utf8_values bs) (\<lambda>cs. Inr (b0 # cs))
      else if 0xC2 \<le> b0 \<and> b0 \<le> 0xDF then
        (case bs of
           b1 # r \<Rightarrow>
             if is_cont b1
             then bind_err (utf8_values r) (\<lambda>cs.
                    Inr (((b0 - 0xC0) * 64 + (b1 - 0x80)) # cs))
             else Inl UnicodeDecodeError
         | _ \<Rightarrow> Inl UnicodeDecodeError)
      else if 0xE0 \<le> b0 \<and> b0 \<le> 0xEF then
        (case bs of
           b1 # b2 # r \<Rightarrow>
             if is_cont b1 \<and> is_cont b2
                \<and> (if b0 = 0xE0 then 0xA0 \<le> b1 else if b0 = 0xED then b1 \<le> 0x9F else True)
             then bind_err (utf8_values r) (\<lambda>cs.
                    Inr (((b0 - 0xE0) * 4096 + (b1 - 0x80) * 64 + (b2 - 0x80)) # cs))
             else Inl UnicodeDecodeError
         | _ \<Rightarrow> Inl UnicodeDecodeError)
      else if 0xF0 \<le> b0 \<and> b0 \<le> 0xF4 then
        (case bs of
           b1 # b2 # b3 # r \<Rightarrow>
             if is_cont b1 \<and> is_cont b2 \<and> is_cont b3
                \<and> (if b0 = 0xF0 then 0x90 \<le> b1 else if b0 = 0xF4 then b1 \<le> 0x8F else True)
             then bind_err (utf8_values r) (\<lambda>cs.
                    Inr (((b0 - 0xF0) * 262144 + (b1 - 0x80) * 4096 + (b2 - 0x80) * 64
                          + (b3 - 0x80)) # cs))
             else Inl UnicodeDecodeError
         | _ \<Rightarrow> Inl UnicodeDecodeError)
      else Inl UnicodeDecodeError)"

definition utf8_decode :: "pybytes \<Rightarrow> error + pystr" where
  "utf8_decode b = utf8_values (map unat b)"

subsection \<open>The constructor of bytes\<close>

text \<open>
  \<^verbatim>\<open>bytes(v)\<close>: the bytes themselves, the bytes of a sequence of integers from 0 to
  255 (piexif gives the value of a tag of type BYTE as a tuple of integers), as many
  zero bytes as an integer says, and a \<^verbatim>\<open>TypeError\<close> for a string, a float or
  \<^verbatim>\<open>None\<close>. A dictionary gives its keys.

  How many zero bytes there can be depends on the machine. A number that is not from
  \<^verbatim>\<open>-sys.maxsize - 1\<close> to \<^verbatim>\<open>sys.maxsize\<close> is an \<^verbatim>\<open>OverflowError\<close>, a negative number a
  \<^verbatim>\<open>ValueError\<close>; the object of a byte string has a header, and a number of bytes that
  with the header is above \<^verbatim>\<open>sys.maxsize\<close> is an \<^verbatim>\<open>OverflowError\<close> too; a number of
  bytes that the machine cannot allocate is a \<^verbatim>\<open>MemoryError\<close>. \<open>sizes\<close> holds the three
  bounds.
\<close>

record sizes =
  maxsize :: nat
  header :: nat
  memory :: nat

definition zero_bytes :: "sizes \<Rightarrow> int \<Rightarrow> error + pybytes" where
  "zero_bytes sz n =
     (if n < - int (maxsize sz) - 1 \<or> int (maxsize sz) < n then Inl OverflowError
      else if n < 0 then Inl ValueError
      else if int (maxsize sz) - int (header sz) < n then Inl OverflowError
      else if int (memory sz) < n then Inl MemoryError
      else Inr (replicate (nat n) 0))"

fun byte_of :: "pyval \<Rightarrow> error + 8 word" where
  "byte_of (PInt i) = (if 0 \<le> i \<and> i < 256 then Inr (of_int i) else Inl ValueError)"
| "byte_of (PBool b) = Inr (if b then 1 else 0)"
| "byte_of _ = Inl TypeError"

fun bytes_of_seq :: "pyval list \<Rightarrow> error + pybytes" where
  "bytes_of_seq [] = Inr []"
| "bytes_of_seq (x # xs) =
     bind_err (byte_of x) (\<lambda>b. bind_err (bytes_of_seq xs) (\<lambda>bs. Inr (b # bs)))"

fun key_val :: "pykey \<Rightarrow> pyval" where
  "key_val (KInt i) = PInt i"
| "key_val (KStr s) = PStr s"

fun py_bytes :: "sizes \<Rightarrow> pyval \<Rightarrow> error + pybytes" where
  "py_bytes sz (PBytes b) = Inr b"
| "py_bytes sz (PTuple xs) = bytes_of_seq xs"
| "py_bytes sz (PList xs) = bytes_of_seq xs"
| "py_bytes sz (PDict d) = bytes_of_seq (map (key_val \<circ> fst) d)"
| "py_bytes sz (PInt n) = zero_bytes sz n"
| "py_bytes sz (PBool b) = zero_bytes sz (if b then 1 else 0)"
| "py_bytes sz _ = Inl TypeError"

section \<open>The manager\<close>

text \<open>
  The tag numbers of \<^verbatim>\<open>piexif.ImageIFD\<close>, \<^verbatim>\<open>piexif.ExifIFD\<close> and \<^verbatim>\<open>piexif.GPSIFD\<close>
  that the manager uses: the tag numbers of the EXIF standard.
\<close>

definition ImageDescription :: int where "ImageDescription = 270"
definition Make :: int where "Make = 271"
definition Model :: int where "Model = 272"
definition Orientation :: int where "Orientation = 274"
definition Software :: int where "Software = 305"
definition Artist :: int where "Artist = 315"
definition Copyright :: int where "Copyright = 33432"
definition XPKeywords :: int where "XPKeywords = 40094"

definition ExifVersion :: int where "ExifVersion = 36864"
definition DateTimeOriginal :: int where "DateTimeOriginal = 36867"
definition DateTimeDigitized :: int where "DateTimeDigitized = 36868"
definition SubSecTimeOriginal :: int where "SubSecTimeOriginal = 37521"
definition SubSecTimeDigitized :: int where "SubSecTimeDigitized = 37522"

definition GPSVersionID :: int where "GPSVersionID = 0"
definition GPSLatitudeRef :: int where "GPSLatitudeRef = 1"
definition GPSLatitude :: int where "GPSLatitude = 2"
definition GPSLongitudeRef :: int where "GPSLongitudeRef = 3"
definition GPSLongitude :: int where "GPSLongitude = 4"
definition GPSAltitudeRef :: int where "GPSAltitudeRef = 5"
definition GPSAltitude :: int where "GPSAltitude = 6"

text \<open>The names of the four basic dictionaries, and of the entry Pillow gives the EXIF block.\<close>

definition k_Exif :: pykey where "k_Exif = KStr (lit ''Exif'')"
definition k_0th :: pykey where "k_0th = KStr (lit ''0th'')"
definition k_1st :: pykey where "k_1st = KStr (lit ''1st'')"
definition k_GPS :: pykey where "k_GPS = KStr (lit ''GPS'')"
definition k_exif :: pykey where "k_exif = KStr (lit ''exif'')"

text \<open>
  The state of a \<^verbatim>\<open>PilExifManager\<close>: its three attributes. The logger writes to a log
  only and is left out.
\<close>

record mgr =
  metadata :: pyval
  filepath :: "pystr option"
  temporal_keywords :: "pystr list"

text \<open>\<^verbatim>\<open>__init__\<close>\<close>

definition init :: mgr where
  "init = \<lparr>metadata = PDict [], filepath = None, temporal_keywords = []\<rparr>"

definition EDITABLE_EXTENSIONS :: "pystr list" where
  "EDITABLE_EXTENSIONS = [lit ''JPG'', lit ''JPEG'']"

definition READABLE_EXTENSIONS :: "pystr list" where
  "READABLE_EXTENSIONS = EDITABLE_EXTENSIONS @ [lit ''PNG'']"

subsection \<open>Loading\<close>

text \<open>
  \<^verbatim>\<open>_load_exif_data\<close> of \<^verbatim>\<open>baseclass.py\<close>. Its input \<open>data_dict\<close> is what
  \<^verbatim>\<open>_load_metadata\<close> returns: one entry for each key of Pillow's \<^verbatim>\<open>img.info\<close>, which
  is the dictionary \<^verbatim>\<open>piexif.load\<close> made of it, or the value as it is. The first loop
  copies every entry but \<^verbatim>\<open>'exif'\<close> into \<open>exif_dict\<close>; the second adds the missing
  basic keys.
\<close>

fun copy_entries :: "pydict \<Rightarrow> pykey list \<Rightarrow> pyval \<Rightarrow> error + pyval" where
  "copy_entries data_dict [] exif_dict = Inr exif_dict"
| "copy_entries data_dict (kwd # kwds) exif_dict =
     (if kwd \<noteq> k_exif then
        (case map_of data_dict kwd of
           None \<Rightarrow> Inl KeyError
         | Some v \<Rightarrow> bind_err (py_setitem exif_dict kwd v) (copy_entries data_dict kwds))
      else copy_entries data_dict kwds exif_dict)"

fun add_basic :: "pykey list \<Rightarrow> pyval \<Rightarrow> error + pyval" where
  "add_basic [] exif_dict = Inr exif_dict"
| "add_basic (kwd # kwds) exif_dict =
     bind_err (py_contains kwd exif_dict) (\<lambda>present.
       if \<not> present then bind_err (py_setitem exif_dict kwd (PDict [])) (add_basic kwds)
       else add_basic kwds exif_dict)"

definition kwds2add :: "pykey list" where
  "kwds2add = [k_Exif, k_0th, k_1st, k_GPS]"

definition load_exif_data :: "pydict \<Rightarrow> bool \<Rightarrow> error + pyval" where
  "load_exif_data data_dict add_basic_keywords =
     (let exif_dict = (case map_of data_dict k_exif of Some v \<Rightarrow> v | None \<Rightarrow> PDict [])
      in bind_err (copy_entries data_dict (map fst data_dict) exif_dict) (\<lambda>exif_dict.
           if add_basic_keywords then add_basic kwds2add exif_dict else Inr exif_dict))"

text \<open>
  \<^verbatim>\<open>load_file\<close>. The first argument stands for \<^verbatim>\<open>_load_metadata\<close>, the reading of the
  file by Pillow and piexif. A method returns the exception it raised, if any, and
  the state it leaves.
\<close>

definition load_file ::
  "(pystr \<Rightarrow> error + pydict) \<Rightarrow> pystr \<Rightarrow> mgr \<Rightarrow> (error + unit) \<times> mgr" where
  "load_file load_metadata file m =
     (if upper (drop 1 (path_suffix file)) \<notin> set READABLE_EXTENSIONS
      then (Inl AssertionError, m)
      else
        let m1 = m\<lparr>temporal_keywords := [], filepath := Some file\<rparr>
        in case bind_err (load_metadata file) (\<lambda>data_dict. load_exif_data data_dict True) of
             Inl e \<Rightarrow> (Inl e, m1)
           | Inr md \<Rightarrow> (Inr (), m1\<lparr>metadata := md\<rparr>))"

subsection \<open>Saving\<close>

text \<open>
  \<^verbatim>\<open>save_file\<close>. The first argument stands for what follows the two assertions:
  \<^verbatim>\<open>piexif.dump\<close>, the choice of the output name and \<^verbatim>\<open>piexif.insert\<close>. The method
  changes no attribute.
\<close>

definition save_file ::
  "(pyval \<Rightarrow> pystr \<Rightarrow> pystr \<Rightarrow> bool \<Rightarrow> error + unit) \<Rightarrow> pystr \<Rightarrow> bool \<Rightarrow> mgr \<Rightarrow> error + unit" where
  "save_file dump_insert filename overwrite m =
     (case filepath m of
        None \<Rightarrow> Inl AssertionError
      | Some fp \<Rightarrow>
          let sfx = upper (drop 1 (path_suffix fp))
          in if \<not> (sfx \<notin> set EDITABLE_EXTENSIONS) then Inl AssertionError
             else dump_insert (metadata m) fp filename overwrite)"

text \<open>\<^verbatim>\<open>clear_metadata\<close>\<close>

definition clear_metadata :: "mgr \<Rightarrow> mgr" where
  "clear_metadata m = m\<lparr>metadata := PDict []\<rparr>"

subsection \<open>Dates\<close>

text \<open>A \<^verbatim>\<open>datetime.datetime\<close>, and the value \<^verbatim>\<open>datetime.datetime(1, 1, 1)\<close>.\<close>

record datetime =
  year :: nat
  month :: nat
  day :: nat
  hour :: nat
  minute :: nat
  second :: nat

definition sentinel :: datetime where
  "sentinel = \<lparr>year = 1, month = 1, day = 1, hour = 0, minute = 0, second = 0\<rparr>"

text \<open>
  \<^verbatim>\<open>dttkn.decode('utf-8')\<close>: only \<^verbatim>\<open>bytes\<close> has the method among the values here.
\<close>

fun py_decode_utf8 :: "pyval \<Rightarrow> error + pystr" where
  "py_decode_utf8 (PBytes b) = utf8_decode b"
| "py_decode_utf8 _ = Inl AttributeError"

text \<open>
  The date getters. \<open>str2datetime\<close> stands for \<^verbatim>\<open>convert.str2datetime\<close> with the
  separators \<^verbatim>\<open>":", " ", ":"\<close>, a function of the library kjmarotools. The
  \<^verbatim>\<open>try\<close> covers the decoding and the parsing, and \<^verbatim>\<open>except ValueError\<close> turns a
  \<^verbatim>\<open>ValueError\<close> of either into the date of year 1.
\<close>

definition get_date ::
  "int \<Rightarrow> (pystr \<Rightarrow> error + datetime) \<Rightarrow> mgr \<Rightarrow> error + datetime" where
  "get_date tag str2datetime m =
     bind_err (py_getitem (metadata m) k_Exif) (\<lambda>exif.
     bind_err (py_getitem exif (KInt tag)) (\<lambda>dttkn.
       case bind_err (py_decode_utf8 dttkn) str2datetime of
         Inl e \<Rightarrow> if is_ValueError e then Inr sentinel else Inl e
       | Inr d \<Rightarrow> Inr d))"

definition get_date_original :: "(pystr \<Rightarrow> error + datetime) \<Rightarrow> mgr \<Rightarrow> error + datetime" where
  "get_date_original = get_date DateTimeOriginal"

definition get_date_digitized :: "(pystr \<Rightarrow> error + datetime) \<Rightarrow> mgr \<Rightarrow> error + datetime" where
  "get_date_digitized = get_date DateTimeDigitized"

text \<open>\<^verbatim>\<open>has_date_original\<close> and \<^verbatim>\<open>has_date_digitized\<close>: \<^verbatim>\<open>tag in self.metadata['Exif']\<close>.\<close>

definition has_date :: "int \<Rightarrow> mgr \<Rightarrow> error + bool" where
  "has_date tag m = bind_err (py_getitem (metadata m) k_Exif) (py_contains (KInt tag))"

definition has_date_original :: "mgr \<Rightarrow> error + bool" where
  "has_date_original = has_date DateTimeOriginal"

definition has_date_digitized :: "mgr \<Rightarrow> error + bool" where
  "has_date_digitized = has_date DateTimeDigitized"

definition has_valid_date_original ::
  "(pystr \<Rightarrow> error + datetime) \<Rightarrow> mgr \<Rightarrow> error + bool" where
  "has_valid_date_original str2datetime m =
     bind_err (has_date_original m) (\<lambda>present.
       if present
       then bind_err (get_date_original str2datetime m) (\<lambda>d. Inr (year d \<noteq> 1))
       else Inr False)"

definition has_valid_date_digitized ::
  "(pystr \<Rightarrow> error + datetime) \<Rightarrow> mgr \<Rightarrow> error + bool" where
  "has_valid_date_digitized str2datetime m =
     bind_err (has_date_digitized m) (\<lambda>present.
       if present
       then bind_err (get_date_digitized str2datetime m) (\<lambda>d. Inr (year d \<noteq> 1))
       else Inr False)"

subsection \<open>GPS\<close>

text \<open>
  \<^verbatim>\<open>_gps2val\<close> of \<^verbatim>\<open>baseclass.py\<close>: three quotients, then \<^verbatim>\<open>convert.dms_zone2deg\<close>, a
  function of the library, which \<open>dms_zone2deg\<close> stands for.
\<close>

definition quotient_at :: "pyval \<Rightarrow> int \<Rightarrow> error + real" where
  "quotient_at t i =
     bind_err (py_getitem t (KInt i)) (\<lambda>p.
     bind_err (py_getitem p (KInt 0)) (\<lambda>num.
     bind_err (py_getitem t (KInt i)) (\<lambda>q.
     bind_err (py_getitem q (KInt 1)) (\<lambda>den. py_truediv num den))))"

definition gps2val ::
  "(real \<Rightarrow> real \<Rightarrow> real \<Rightarrow> bool \<Rightarrow> real) \<Rightarrow> pyval \<Rightarrow> bool \<Rightarrow> error + real" where
  "gps2val dms_zone2deg gps_metadata_tuple zone_positive =
     bind_err (quotient_at gps_metadata_tuple 0) (\<lambda>degs.
     bind_err (quotient_at gps_metadata_tuple 1) (\<lambda>mins.
     bind_err (quotient_at gps_metadata_tuple 2) (\<lambda>secs.
       Inr (dms_zone2deg degs mins secs zone_positive))))"

text \<open>\<^verbatim>\<open>self.metadata['GPS'][tag]\<close>\<close>

definition gps_tag :: "mgr \<Rightarrow> int \<Rightarrow> error + pyval" where
  "gps_tag m tag = bind_err (py_getitem (metadata m) k_GPS) (\<lambda>gps. py_getitem gps (KInt tag))"

definition get_gps_data ::
  "(real \<Rightarrow> real \<Rightarrow> real \<Rightarrow> bool \<Rightarrow> real) \<Rightarrow> mgr \<Rightarrow> error + real \<times> real \<times> real \<times> bool" where
  "get_gps_data dms_zone2deg m =
     bind_err (gps_tag m GPSLatitude) (\<lambda>meta_dat.
     bind_err (gps_tag m GPSLatitudeRef) (\<lambda>zbn.
     bind_err (gps2val dms_zone2deg meta_dat (py_eq_bytes zbn [78])) (\<lambda>lat.
     bind_err (gps_tag m GPSLongitude) (\<lambda>meta_dat.
     bind_err (gps_tag m GPSLongitudeRef) (\<lambda>zbn.
     bind_err (gps2val dms_zone2deg meta_dat (py_eq_bytes zbn [69])) (\<lambda>lon.
     bind_err (gps_tag m GPSAltitude) (\<lambda>meta_dat.
     bind_err (gps_tag m GPSAltitudeRef) (\<lambda>alt_ref.
     bind_err (py_getitem meta_dat (KInt 0)) (\<lambda>num.
     bind_err (py_getitem meta_dat (KInt 1)) (\<lambda>den.
     bind_err (py_truediv num den) (\<lambda>alt.
       Inr (lat, lon, alt, py_eq_int alt_ref 1))))))))))))"

text \<open>\<^verbatim>\<open>has_gps_data\<close>: only a \<^verbatim>\<open>KeyError\<close> of \<^verbatim>\<open>get_gps_data\<close> is caught.\<close>

definition has_gps_data :: "(real \<Rightarrow> real \<Rightarrow> real \<Rightarrow> bool \<Rightarrow> real) \<Rightarrow> mgr \<Rightarrow> error + bool" where
  "has_gps_data dms_zone2deg m =
     (case get_gps_data dms_zone2deg m of
        Inr r \<Rightarrow> Inr True
      | Inl e \<Rightarrow> if e = KeyError then Inr False else Inl e)"

subsection \<open>Getters of the 0th dictionary\<close>

text \<open>\<^verbatim>\<open>has0th and tag in self.metadata['0th']\<close>\<close>

definition has_0th_tag :: "int \<Rightarrow> mgr \<Rightarrow> error + bool" where
  "has_0th_tag tag m =
     bind_err (py_contains k_0th (metadata m)) (\<lambda>has0th.
       if has0th
       then bind_err (py_getitem (metadata m) k_0th) (py_contains (KInt tag))
       else Inr False)"

definition zeroth_tag :: "mgr \<Rightarrow> int \<Rightarrow> error + pyval" where
  "zeroth_tag m tag = bind_err (py_getitem (metadata m) k_0th) (\<lambda>ifd. py_getitem ifd (KInt tag))"

definition get_keywords :: "bool \<Rightarrow> sizes \<Rightarrow> mgr \<Rightarrow> error + pystr list" where
  "get_keywords little sz m =
     bind_err (has_0th_tag XPKeywords m) (\<lambda>found.
       if found then
         bind_err (zeroth_tag m XPKeywords) (\<lambda>raw.
         bind_err (py_bytes sz raw) (\<lambda>tags_bytes.
         bind_err (utf16_decode little tags_bytes) (\<lambda>text.
           Inr (py_split 59 (before_nul text)))))
       else Inr [])"

text \<open>The four getters that return the stored value, or the empty string.\<close>

definition get_0th :: "int \<Rightarrow> mgr \<Rightarrow> error + pyval" where
  "get_0th tag m =
     bind_err (has_0th_tag tag m) (\<lambda>found.
       if found then zeroth_tag m tag else Inr (PStr []))"

definition get_camera_maker :: "mgr \<Rightarrow> error + pyval" where
  "get_camera_maker = get_0th Make"

definition get_camera_model :: "mgr \<Rightarrow> error + pyval" where
  "get_camera_model = get_0th Model"

definition get_description :: "mgr \<Rightarrow> error + pyval" where
  "get_description = get_0th ImageDescription"

definition get_copyright :: "mgr \<Rightarrow> error + pyval" where
  "get_copyright = get_0th Copyright"

subsection \<open>Setters\<close>

text \<open>
  \<^verbatim>\<open>self.metadata[ifd][tag] = v\<close>: the dictionary of \<open>ifd\<close> is looked up
  (\<^verbatim>\<open>KeyError\<close> without it) and changed in place, which is its new value under the
  same key. A state of values says what is read through \<open>ifd\<close> after the write, and
  this is all that is proved of it below. It does not say which other entries refer
  to the same dictionary and show the write too: for that the setters are given again
  on a store of objects, in the section on objects.
\<close>

fun put_back :: "pyval \<Rightarrow> pykey \<Rightarrow> pyval \<Rightarrow> pyval" where
  "put_back (PDict d) k c = PDict (dict_set d k c)"
| "put_back v k c = v"

definition store_tag :: "pykey \<Rightarrow> int \<Rightarrow> pyval \<Rightarrow> mgr \<Rightarrow> (error + unit) \<times> mgr" where
  "store_tag ifd tag v m =
     (case bind_err (py_getitem (metadata m) ifd) (\<lambda>c. py_setitem c (KInt tag) v) of
        Inl e \<Rightarrow> (Inl e, m)
      | Inr c' \<Rightarrow> (Inr (), m\<lparr>metadata := put_back (metadata m) ifd c'\<rparr>))"

text \<open>Statements in a row: the first exception ends the method.\<close>

fun run_all :: "('s \<Rightarrow> (error + unit) \<times> 's) list \<Rightarrow> 's \<Rightarrow> (error + unit) \<times> 's" where
  "run_all [] m = (Inr (), m)"
| "run_all (stmt # stmts) m =
     (case stmt m of
        (Inl e, m') \<Rightarrow> (Inl e, m')
      | (Inr u, m') \<Rightarrow> run_all stmts m')"

text \<open>\<^verbatim>\<open>self.metadata[ifd][tag] = text.encode('utf-8')\<close>: the text is encoded first.\<close>

definition store_text :: "pykey \<Rightarrow> int \<Rightarrow> pystr \<Rightarrow> mgr \<Rightarrow> (error + unit) \<times> mgr" where
  "store_text ifd tag text m =
     (case utf8_encode text of
        Inl e \<Rightarrow> (Inl e, m)
      | Inr b \<Rightarrow> store_tag ifd tag (PBytes b) m)"

text \<open>
  The date setters. \<open>datetime2str\<close> stands for \<^verbatim>\<open>convert.datetime2str\<close> with the
  separators \<^verbatim>\<open>":", " ", ":"\<close>.
\<close>

definition set_date ::
  "int \<Rightarrow> int \<Rightarrow> (datetime \<Rightarrow> error + pystr) \<Rightarrow> datetime \<Rightarrow> mgr \<Rightarrow> (error + unit) \<times> mgr" where
  "set_date subsec_tag date_tag datetime2str new_datetime m =
     (case datetime2str new_datetime of
        Inl e \<Rightarrow> (Inl e, m)
      | Inr datetime2add \<Rightarrow>
          run_all [store_tag k_Exif subsec_tag (PBytes [48, 48]),
                   store_text k_Exif date_tag datetime2add] m)"

definition set_date_original ::
  "(datetime \<Rightarrow> error + pystr) \<Rightarrow> datetime \<Rightarrow> mgr \<Rightarrow> (error + unit) \<times> mgr" where
  "set_date_original = set_date SubSecTimeOriginal DateTimeOriginal"

definition set_date_digitized ::
  "(datetime \<Rightarrow> error + pystr) \<Rightarrow> datetime \<Rightarrow> mgr \<Rightarrow> (error + unit) \<times> mgr" where
  "set_date_digitized = set_date SubSecTimeDigitized DateTimeDigitized"

definition set_artist :: "pystr \<Rightarrow> mgr \<Rightarrow> (error + unit) \<times> mgr" where
  "set_artist artist = store_text k_0th Artist artist"

definition set_camera_maker :: "pystr \<Rightarrow> mgr \<Rightarrow> (error + unit) \<times> mgr" where
  "set_camera_maker camera_maker = store_text k_0th Make camera_maker"

definition set_camera_model :: "pystr \<Rightarrow> mgr \<Rightarrow> (error + unit) \<times> mgr" where
  "set_camera_model camera_model = store_text k_0th Model camera_model"

definition set_copyright :: "pystr \<Rightarrow> mgr \<Rightarrow> (error + unit) \<times> mgr" where
  "set_copyright img_copyright = store_text k_0th Copyright img_copyright"

definition set_exif_version :: "pystr \<Rightarrow> mgr \<Rightarrow> (error + unit) \<times> mgr" where
  "set_exif_version version = store_text k_Exif ExifVersion version"

definition set_software :: "pystr \<Rightarrow> mgr \<Rightarrow> (error + unit) \<times> mgr" where
  "set_software software = store_text k_0th Software software"

definition set_orientation :: "int \<Rightarrow> mgr \<Rightarrow> (error + unit) \<times> mgr" where
  "set_orientation orientation = store_tag k_0th Orientation (PInt orientation)"

text \<open>
  \<^verbatim>\<open>set_gps_data\<close>. \<open>deg2dms_zone\<close> stands for \<^verbatim>\<open>convert.deg2dms_zone\<close>, a function
  of the library: degrees, minutes, seconds and one of the two names of the zone it
  is given, which are the strings \<^verbatim>\<open>"N", "S"\<close> and \<^verbatim>\<open>"E", "W"\<close>.
\<close>

definition dms_tuple :: "int \<times> int \<times> real \<times> pystr \<Rightarrow> pyval" where
  "dms_tuple dmsz =
     (case dmsz of (d, mi, s, z) \<Rightarrow>
        PTuple [PTuple [PInt d, PInt 1], PTuple [PInt mi, PInt 1],
                PTuple [PInt (py_int (s * 100)), PInt 100]])"

definition zone_of :: "int \<times> int \<times> real \<times> pystr \<Rightarrow> pystr" where
  "zone_of dmsz = (case dmsz of (d, mi, s, z) \<Rightarrow> z)"

definition set_gps_data ::
  "(real \<Rightarrow> pystr \<times> pystr \<Rightarrow> int \<times> int \<times> real \<times> pystr) \<Rightarrow>
   real \<Rightarrow> real \<Rightarrow> real \<Rightarrow> bool \<Rightarrow> mgr \<Rightarrow> (error + unit) \<times> mgr" where
  "set_gps_data deg2dms_zone lat lon alt mean_sea_level m =
     (let lat_dmsz = deg2dms_zone lat (lit ''N'', lit ''S'');
          lon_dmsz = deg2dms_zone lon (lit ''E'', lit ''W'');
          gps_lat = dms_tuple lat_dmsz;
          gps_log = dms_tuple lon_dmsz
      in run_all
           [store_tag k_GPS GPSVersionID (PTuple [PInt 2, PInt 2, PInt 0, PInt 0]),
            store_tag k_GPS GPSAltitudeRef (PInt (if mean_sea_level then 1 else 0)),
            store_tag k_GPS GPSLatitudeRef (PStr (zone_of lat_dmsz)),
            store_tag k_GPS GPSLongitudeRef (PStr (zone_of lon_dmsz)),
            store_tag k_GPS GPSLatitude gps_lat,
            store_tag k_GPS GPSLongitude gps_log,
            store_tag k_GPS GPSAltitude (PTuple [PInt (py_int (alt * 100)), PInt 100])] m)"

text \<open>
  \<^verbatim>\<open>add_keywords\<close>, for a list of strings. Without \<open>overwrite\<close> the new keywords are
  those that are not among the temporal keywords, after the temporal keywords.
\<close>

definition add_keywords :: "bool \<Rightarrow> pystr list \<Rightarrow> bool \<Rightarrow> mgr \<Rightarrow> (error + unit) \<times> mgr" where
  "add_keywords little keywords overwrite m =
     (let new_keywords =
            (if \<not> overwrite then
               py_join 59
                 (temporal_keywords m @ filter (\<lambda>kwd. kwd \<notin> set (temporal_keywords m)) keywords)
             else py_join 59 keywords)
      in case utf16_encode little new_keywords of
           Inl e \<Rightarrow> (Inl e, m)
         | Inr utf16_keywords \<Rightarrow> store_tag k_0th XPKeywords (PBytes utf16_keywords) m)"

subsection \<open>Reachable states\<close>

text \<open>
  The states of a manager: the state \<^verbatim>\<open>__init__\<close> builds, and the state after any
  method that changes an attribute, with any arguments and whether it raised or not.
  \<^verbatim>\<open>metadata\<close> is a public attribute, so an assignment to it is a step too. The
  getters and \<^verbatim>\<open>save_file\<close> change no attribute.
\<close>

inductive reachable :: "mgr \<Rightarrow> bool" where
  reach_init: "reachable init"
| reach_load_file: "reachable m \<Longrightarrow> reachable (snd (load_file load_metadata file m))"
| reach_clear_metadata: "reachable m \<Longrightarrow> reachable (clear_metadata m)"
| reach_metadata: "reachable m \<Longrightarrow> reachable (m\<lparr>metadata := v\<rparr>)"
| reach_set_date_original:
    "reachable m \<Longrightarrow> reachable (snd (set_date_original datetime2str new_datetime m))"
| reach_set_date_digitized:
    "reachable m \<Longrightarrow> reachable (snd (set_date_digitized datetime2str new_datetime m))"
| reach_set_artist: "reachable m \<Longrightarrow> reachable (snd (set_artist artist m))"
| reach_set_camera_maker: "reachable m \<Longrightarrow> reachable (snd (set_camera_maker camera_maker m))"
| reach_set_camera_model: "reachable m \<Longrightarrow> reachable (snd (set_camera_model camera_model m))"
| reach_set_copyright: "reachable m \<Longrightarrow> reachable (snd (set_copyright img_copyright m))"
| reach_set_exif_version: "reachable m \<Longrightarrow> reachable (snd (set_exif_version version m))"
| reach_set_software: "reachable m \<Longrightarrow> reachable (snd (set_software software m))"
| reach_set_orientation: "reachable m \<Longrightarrow> reachable (snd (set_orientation orientation m))"
| reach_set_gps_data:
    "reachable m \<Longrightarrow>
     reachable (snd (set_gps_data deg2dms_zone lat lon alt mean_sea_level m))"
| reach_add_keywords:
    "reachable m \<Longrightarrow> reachable (snd (add_keywords little keywords overwrite m))"

subsection \<open>Well-formed GPS values\<close>

text \<open>
  The values piexif reads for the GPS tags of type RATIONAL: a pair of integers of 32
  bits, numerator and denominator, here with a denominator that is not zero; and the
  three such pairs of a latitude or longitude.
\<close>

fun is_rational :: "pyval \<Rightarrow> bool" where
  "is_rational (PTuple [PInt n, PInt d]) = (d \<noteq> 0 \<and> \<bar>n\<bar> < 2 ^ 32 \<and> \<bar>d\<bar> < 2 ^ 32)"
| "is_rational _ = False"

fun is_dms :: "pyval \<Rightarrow> bool" where
  "is_dms (PTuple [a, b, c]) = (is_rational a \<and> is_rational b \<and> is_rational c)"
| "is_dms _ = False"

subsection \<open>The conversions of the library\<close>

text \<open>
  Modelled from the spec: \<^verbatim>\<open>convert.dms_zone2deg\<close> and \<^verbatim>\<open>convert.deg2dms_zone\<close> of the
  library kjmarotools, which is not among the sources. The spec names them the
  conversion between degrees, minutes and seconds with a hemisphere and signed decimal
  degrees: the hemisphere is the first zone for a degree that is not negative and the
  second otherwise, and a value of the second zone is negative.
\<close>

definition spec_dms_zone2deg :: "real \<Rightarrow> real \<Rightarrow> real \<Rightarrow> bool \<Rightarrow> real" where
  "spec_dms_zone2deg degs mins secs zone_positive =
     (if zone_positive then 1 else - 1) * (degs + mins / 60 + secs / 3600)"

definition spec_deg2dms_zone :: "real \<Rightarrow> pystr \<times> pystr \<Rightarrow> int \<times> int \<times> real \<times> pystr" where
  "spec_deg2dms_zone degrees zones =
     (let a = \<bar>degrees\<bar>;
          d = \<lfloor>a\<rfloor>;
          mi = \<lfloor>(a - of_int d) * 60\<rfloor>;
          s = (a - of_int d) * 3600 - of_int mi * 60
      in (d, mi, s, if 0 \<le> degrees then fst zones else snd zones))"

text \<open>
  Modelled from the spec: \<^verbatim>\<open>convert.str2datetime\<close> of the library kjmarotools with
  the separators \<^verbatim>\<open>":", " ", ":"\<close>, which is not among the sources. The spec names it
  the parsing of a date string, and the text it parses is \<^verbatim>\<open>YYYY:MM:DD HH:MM:SS\<close>:
  six numbers in their ranges, a \<^verbatim>\<open>ValueError\<close> for any other text.
\<close>

fun number :: "pystr \<Rightarrow> nat option" where
  "number [] = Some 0"
| "number (c # cs) =
     (if 48 \<le> c \<and> c \<le> 57
      then (case number cs of None \<Rightarrow> None | Some n \<Rightarrow> Some ((c - 48) * 10 ^ length cs + n))
      else None)"

definition days_in_month :: "nat \<Rightarrow> nat \<Rightarrow> nat" where
  "days_in_month y mo =
     (if mo = 2 then (if y mod 4 = 0 \<and> (y mod 100 \<noteq> 0 \<or> y mod 400 = 0) then 29 else 28)
      else if mo = 4 \<or> mo = 6 \<or> mo = 9 \<or> mo = 11 then 30 else 31)"

definition spec_str2datetime :: "pystr \<Rightarrow> error + datetime" where
  "spec_str2datetime s =
     (if length s = 19 \<and> s ! 4 = 58 \<and> s ! 7 = 58 \<and> s ! 10 = 32 \<and> s ! 13 = 58 \<and> s ! 16 = 58
      then
        (case (number (take 4 s), number (take 2 (drop 5 s)), number (take 2 (drop 8 s)),
               number (take 2 (drop 11 s)), number (take 2 (drop 14 s)),
               number (take 2 (drop 17 s))) of
           (Some y, Some mo, Some d, Some h, Some mi, Some se) \<Rightarrow>
             if 1 \<le> y \<and> 1 \<le> mo \<and> mo \<le> 12 \<and> 1 \<le> d \<and> d \<le> days_in_month y mo
                \<and> h < 24 \<and> mi < 60 \<and> se < 60
             then Inr \<lparr>year = y, month = mo, day = d, hour = h, minute = mi, second = se\<rparr>
             else Inl ValueError
         | _ \<Rightarrow> Inl ValueError)
      else Inl ValueError)"

text \<open>
  A Unicode scalar value: a code point of a Python string that is not a surrogate.
\<close>

definition scalar :: "nat \<Rightarrow> bool" where
  "scalar c = (c < 0x110000 \<and> \<not> (0xD800 \<le> c \<and> c \<le> 0xDFFF))"

section \<open>The setters on objects\<close>

text \<open>
  \<^verbatim>\<open>self.metadata[ifd][tag] = v\<close> changes a dictionary in place: the object that
  \<^verbatim>\<open>self.metadata[ifd]\<close> refers to, whichever other entries refer to it too. Here a
  dictionary or a list is an object of a store, a value refers to it by its address,
  and a write to an object is seen through every reference to it. What a setter
  leaves unchanged is stated on these states.
\<close>

datatype oval =
    ONone
  | OBool bool
  | OInt int
  | OFloat real
  | OStr pystr
  | OBytes pybytes
  | OTuple "oval list"
  | ORef nat

datatype obj = ODict "(pykey \<times> oval) list" | OList "oval list"

record omgr =
  ometadata :: oval
  store :: "nat \<Rightarrow> obj option"
  ofilepath :: "pystr option"
  otemporal_keywords :: "pystr list"

text \<open>
  \<^verbatim>\<open>v[k]\<close> and \<^verbatim>\<open>c[k] = v\<close> as for values, through the store. Every reference of a state
  has its object; an address without one is an error here.
\<close>

fun o_getitem :: "(nat \<Rightarrow> obj option) \<Rightarrow> oval \<Rightarrow> pykey \<Rightarrow> error + oval" where
  "o_getitem st (ORef a) k =
     (case st a of
        Some (ODict d) \<Rightarrow> (case map_of d k of None \<Rightarrow> Inl KeyError | Some v \<Rightarrow> Inr v)
      | Some (OList xs) \<Rightarrow> (case k of KInt i \<Rightarrow> seq_index xs i | KStr s \<Rightarrow> Inl TypeError)
      | None \<Rightarrow> Inl TypeError)"
| "o_getitem st (OTuple xs) (KInt i) = seq_index xs i"
| "o_getitem st (OStr s) (KInt i) = map_sum id (\<lambda>c. OStr [c]) (seq_index s i)"
| "o_getitem st (OBytes b) (KInt i) = map_sum id (\<lambda>w. OInt (uint w)) (seq_index b i)"
| "o_getitem st _ _ = Inl TypeError"

fun o_setitem ::
  "(nat \<Rightarrow> obj option) \<Rightarrow> oval \<Rightarrow> pykey \<Rightarrow> oval \<Rightarrow> error + (nat \<Rightarrow> obj option)" where
  "o_setitem st (ORef a) k v =
     (case st a of
        Some (ODict d) \<Rightarrow> Inr (st(a \<mapsto> ODict (dict_set d k v)))
      | Some (OList xs) \<Rightarrow>
          (case k of
             KInt i \<Rightarrow>
               (case norm_index (length xs) i of
                  None \<Rightarrow> Inl IndexError
                | Some pos \<Rightarrow> Inr (st(a \<mapsto> OList (xs[pos := v]))))
           | KStr s \<Rightarrow> Inl TypeError)
      | None \<Rightarrow> Inl TypeError)"
| "o_setitem st _ k v = Inl TypeError"

text \<open>\<^verbatim>\<open>self.metadata[ifd][tag]\<close>, read and written.\<close>

definition tag_obj :: "omgr \<Rightarrow> pykey \<Rightarrow> int \<Rightarrow> error + oval" where
  "tag_obj s ifd tag =
     bind_err (o_getitem (store s) (ometadata s) ifd) (\<lambda>c. o_getitem (store s) c (KInt tag))"

definition store_tag_obj :: "pykey \<Rightarrow> int \<Rightarrow> oval \<Rightarrow> omgr \<Rightarrow> (error + unit) \<times> omgr" where
  "store_tag_obj ifd tag v s =
     (case bind_err (o_getitem (store s) (ometadata s) ifd)
             (\<lambda>c. o_setitem (store s) c (KInt tag) v) of
        Inl e \<Rightarrow> (Inl e, s)
      | Inr st \<Rightarrow> (Inr (), s\<lparr>store := st\<rparr>))"

definition store_text_obj :: "pykey \<Rightarrow> int \<Rightarrow> pystr \<Rightarrow> omgr \<Rightarrow> (error + unit) \<times> omgr" where
  "store_text_obj ifd tag text s =
     (case utf8_encode text of
        Inl e \<Rightarrow> (Inl e, s)
      | Inr b \<Rightarrow> store_tag_obj ifd tag (OBytes b) s)"

text \<open>The eleven setters, statement by statement as above.\<close>

definition set_date_obj ::
  "int \<Rightarrow> int \<Rightarrow> (datetime \<Rightarrow> error + pystr) \<Rightarrow> datetime \<Rightarrow> omgr \<Rightarrow> (error + unit) \<times> omgr" where
  "set_date_obj subsec_tag date_tag datetime2str new_datetime s =
     (case datetime2str new_datetime of
        Inl e \<Rightarrow> (Inl e, s)
      | Inr datetime2add \<Rightarrow>
          run_all [store_tag_obj k_Exif subsec_tag (OBytes [48, 48]),
                   store_text_obj k_Exif date_tag datetime2add] s)"

definition set_date_original_obj ::
  "(datetime \<Rightarrow> error + pystr) \<Rightarrow> datetime \<Rightarrow> omgr \<Rightarrow> (error + unit) \<times> omgr" where
  "set_date_original_obj = set_date_obj SubSecTimeOriginal DateTimeOriginal"

definition set_date_digitized_obj ::
  "(datetime \<Rightarrow> error + pystr) \<Rightarrow> datetime \<Rightarrow> omgr \<Rightarrow> (error + unit) \<times> omgr" where
  "set_date_digitized_obj = set_date_obj SubSecTimeDigitized DateTimeDigitized"

definition set_artist_obj :: "pystr \<Rightarrow> omgr \<Rightarrow> (error + unit) \<times> omgr" where
  "set_artist_obj artist = store_text_obj k_0th Artist artist"

definition set_camera_maker_obj :: "pystr \<Rightarrow> omgr \<Rightarrow> (error + unit) \<times> omgr" where
  "set_camera_maker_obj camera_maker = store_text_obj k_0th Make camera_maker"

definition set_camera_model_obj :: "pystr \<Rightarrow> omgr \<Rightarrow> (error + unit) \<times> omgr" where
  "set_camera_model_obj camera_model = store_text_obj k_0th Model camera_model"

definition set_copyright_obj :: "pystr \<Rightarrow> omgr \<Rightarrow> (error + unit) \<times> omgr" where
  "set_copyright_obj img_copyright = store_text_obj k_0th Copyright img_copyright"

definition set_exif_version_obj :: "pystr \<Rightarrow> omgr \<Rightarrow> (error + unit) \<times> omgr" where
  "set_exif_version_obj version = store_text_obj k_Exif ExifVersion version"

definition set_software_obj :: "pystr \<Rightarrow> omgr \<Rightarrow> (error + unit) \<times> omgr" where
  "set_software_obj software = store_text_obj k_0th Software software"

definition set_orientation_obj :: "int \<Rightarrow> omgr \<Rightarrow> (error + unit) \<times> omgr" where
  "set_orientation_obj orientation = store_tag_obj k_0th Orientation (OInt orientation)"

definition dms_tuple_obj :: "int \<times> int \<times> real \<times> pystr \<Rightarrow> oval" where
  "dms_tuple_obj dmsz =
     (case dmsz of (d, mi, s, z) \<Rightarrow>
        OTuple [OTuple [OInt d, OInt 1], OTuple [OInt mi, OInt 1],
                OTuple [OInt (py_int (s * 100)), OInt 100]])"

definition set_gps_data_obj ::
  "(real \<Rightarrow> pystr \<times> pystr \<Rightarrow> int \<times> int \<times> real \<times> pystr) \<Rightarrow>
   real \<Rightarrow> real \<Rightarrow> real \<Rightarrow> bool \<Rightarrow> omgr \<Rightarrow> (error + unit) \<times> omgr" where
  "set_gps_data_obj deg2dms_zone lat lon alt mean_sea_level s =
     (let lat_dmsz = deg2dms_zone lat (lit ''N'', lit ''S'');
          lon_dmsz = deg2dms_zone lon (lit ''E'', lit ''W'');
          gps_lat = dms_tuple_obj lat_dmsz;
          gps_log = dms_tuple_obj lon_dmsz
      in run_all
           [store_tag_obj k_GPS GPSVersionID (OTuple [OInt 2, OInt 2, OInt 0, OInt 0]),
            store_tag_obj k_GPS GPSAltitudeRef (OInt (if mean_sea_level then 1 else 0)),
            store_tag_obj k_GPS GPSLatitudeRef (OStr (zone_of lat_dmsz)),
            store_tag_obj k_GPS GPSLongitudeRef (OStr (zone_of lon_dmsz)),
            store_tag_obj k_GPS GPSLatitude gps_lat,
            store_tag_obj k_GPS GPSLongitude gps_log,
            store_tag_obj k_GPS GPSAltitude (OTuple [OInt (py_int (alt * 100)), OInt 100])] s)"

definition add_keywords_obj ::
  "bool \<Rightarrow> pystr list \<Rightarrow> bool \<Rightarrow> omgr \<Rightarrow> (error + unit) \<times> omgr" where
  "add_keywords_obj little keywords overwrite s =
     (let new_keywords =
            (if \<not> overwrite then
               py_join 59
                 (otemporal_keywords s @
                  filter (\<lambda>kwd. kwd \<notin> set (otemporal_keywords s)) keywords)
             else py_join 59 keywords)
      in case utf16_encode little new_keywords of
           Inl e \<Rightarrow> (Inl e, s)
         | Inr utf16_keywords \<Rightarrow> store_tag_obj k_0th XPKeywords (OBytes utf16_keywords) s)"

text \<open>
  \<open>changes_only ifd tags s s'\<close>: from \<open>s\<close> to \<open>s'\<close> the file path, the temporal
  keywords and what \<^verbatim>\<open>self.metadata\<close> refers to are the same; when
  \<^verbatim>\<open>self.metadata[ifd]\<close> is an object, every other object is the same and, when it is a
  dictionary, it still is one and every entry of it but those of \<open>tags\<close> is the same;
  and otherwise the whole store is the same.
\<close>

definition changes_only :: "pykey \<Rightarrow> int set \<Rightarrow> omgr \<Rightarrow> omgr \<Rightarrow> bool" where
  "changes_only ifd tags s s' \<longleftrightarrow>
     ometadata s' = ometadata s \<and> ofilepath s' = ofilepath s \<and>
     otemporal_keywords s' = otemporal_keywords s \<and>
     (case o_getitem (store s) (ometadata s) ifd of
        Inr (ORef a) \<Rightarrow>
          (\<forall>a'. a' \<noteq> a \<longrightarrow> store s' a' = store s a') \<and>
          (\<forall>d. store s a = Some (ODict d) \<longrightarrow>
             (\<exists>d'. store s' a = Some (ODict d') \<and>
                (\<forall>t. t \<notin> KInt ` tags \<longrightarrow> map_of d' t = map_of d t)))
      | _ \<Rightarrow> store s' = store s)"

section \<open>Properties\<close>

subsection \<open>Reading and writing by file extension\<close>

text \<open>
  C6. A path whose suffix, upper-cased and without its dot, is not one of JPG, JPEG and
  PNG makes \<^verbatim>\<open>load_file\<close> raise \<^verbatim>\<open>AssertionError\<close>: the reading of the file is not
  consulted (the result is the same for every \<open>load_metadata\<close>), and the metadata,
  the file path and the temporal keywords of the manager are as they were.
\<close>

theorem load_file_unreadable:
  "upper (drop 1 (path_suffix file)) \<notin> set READABLE_EXTENSIONS \<Longrightarrow>
   load_file load_metadata file m = (Inl AssertionError, m)"
  by (simp add: load_file_def)

theorem load_file_unreadable_witness:
  "upper (drop 1 (path_suffix (lit ''notes.txt''))) \<notin> set READABLE_EXTENSIONS \<and>
   load_file (\<lambda>f. Inr []) (lit ''notes.txt'') init = (Inl AssertionError, init)"
proof -
  have h: "upper (drop 1 (path_suffix (lit ''notes.txt''))) \<notin> set READABLE_EXTENSIONS"
    by (simp add: path_suffix_def path_name_def lit_def upper_def upper_cp_def
        READABLE_EXTENSIONS_def EDITABLE_EXTENSIONS_def)
  show ?thesis using h load_file_unreadable [OF h] by simp
qed

text \<open>
  C2. The assertion of \<^verbatim>\<open>save_file\<close> is \<^verbatim>\<open>assert sfx not in EDITABLE_EXTENSIONS\<close>: with
  the file \<^verbatim>\<open>photo.jpg\<close> loaded, \<^verbatim>\<open>save_file\<close> raises \<^verbatim>\<open>AssertionError\<close> and writes
  nothing, whatever the writing would do.
\<close>

theorem save_file_jpg_fails:
  "save_file dump_insert filename overwrite
     \<lparr>metadata = PDict [], filepath = Some (lit ''photo.jpg''), temporal_keywords = []\<rparr>
   = Inl AssertionError"
  by (simp add: save_file_def path_suffix_def path_name_def lit_def upper_def upper_cp_def
        EDITABLE_EXTENSIONS_def)

text \<open>With \<^verbatim>\<open>photo.png\<close> loaded, both assertions pass and the file is written.\<close>

lemma save_file_png_passes:
  "save_file dump_insert filename overwrite
     \<lparr>metadata = PDict [], filepath = Some (lit ''photo.png''), temporal_keywords = []\<rparr>
   = dump_insert (PDict []) (lit ''photo.png'') filename overwrite"
  by (simp add: save_file_def path_suffix_def path_name_def lit_def upper_def upper_cp_def
        EDITABLE_EXTENSIONS_def)



subsection \<open>Keywords\<close>

lemma map_of_dict_set: "map_of (dict_set d k v) = (map_of d)(k \<mapsto> v)"
  by (induction d k v rule: dict_set.induct) auto

lemma bind_err_Inr [simp]: "bind_err (Inr x) f = f x"
  by (simp add: bind_err_def)

lemma bind_err_Inl [simp]: "bind_err (Inl e) f = Inl e"
  by (simp add: bind_err_def)

lemma utf16_units_scalar:
  "\<forall>c\<in>set s. scalar c \<Longrightarrow>
   \<exists>us. utf16_units s = Inr us \<and> units_str us = Inr s \<and> (\<forall>u\<in>set us. u < 65536)"
proof (induction s)
  case Nil
  then show ?case by simp
next
  case (Cons c cs)
  then obtain us where us: "utf16_units cs = Inr us" "units_str us = Inr cs" "\<forall>u\<in>set us. u < 65536"
    by auto
  from Cons.prems have c: "scalar c" by simp
  show ?case
  proof (cases "c < 0x10000")
    case True
    with c us show ?thesis by (auto simp: scalar_def)
  next
    case False
    define x where "x = c - 0x10000"
    have x: "x < 0x100000" "c = x + 0x10000" using c False by (auto simp: scalar_def x_def)
    have d: "x div 1024 < 1024" using x by simp
    have md: "x mod 1024 < 1024" by simp
    have eq: "0x10000 + (0xD800 + x div 1024 - 0xD800) * 1024 + (0xDC00 + x mod 1024 - 0xDC00) = c"
      using x by simp
    have "utf16_units (c # cs) = Inr ((0xD800 + x div 1024) # (0xDC00 + x mod 1024) # us)"
      using c False us by (simp add: scalar_def x_def)
    moreover have "units_str ((0xD800 + x div 1024) # (0xDC00 + x mod 1024) # us) = Inr (c # cs)"
      using d md us eq by simp
    moreover have "\<forall>u\<in>set ((0xD800 + x div 1024) # (0xDC00 + x mod 1024) # us). u < 65536"
      using d md us by simp
    ultimately show ?thesis by blast
  qed
qed

lemma unat_byte_mod: "unat (of_nat (u mod 256) :: 8 word) = u mod 256"
  by (simp add: unat_of_nat)

lemma unat_byte_div: "u < 65536 \<Longrightarrow> unat (of_nat (u div 256) :: 8 word) = u div 256"
  by (simp add: unat_of_nat)

lemma bytes_units_unit_bytes:
  "\<forall>u\<in>set us. u < 65536 \<Longrightarrow>
   bytes_units little (concat (map (unit_bytes little) us)) = Inr us"
  by (cases little; induction us) (simp_all add: unit_bytes_def unat_byte_mod unat_byte_div)

lemma utf16_decode_bom:
  "utf16_decode little' (unit_bytes little 0xFEFF @ bs) = decode_units little bs"
  by (simp add: utf16_decode_def unit_bytes_def)

lemma utf16_roundtrip:
  assumes "\<forall>c\<in>set s. scalar c"
  shows "\<exists>b. utf16_encode little s = Inr b \<and> utf16_decode little b = Inr s"
proof -
  from utf16_units_scalar [OF assms] obtain us where
    us: "utf16_units s = Inr us" "units_str us = Inr s" "\<forall>u\<in>set us. u < 65536" by blast
  have "utf16_encode little s = Inr (unit_bytes little 0xFEFF @ concat (map (unit_bytes little) us))"
    using us by (simp add: utf16_encode_def)
  moreover have "utf16_decode little (unit_bytes little 0xFEFF @ concat (map (unit_bytes little) us)) = Inr s"
    using us by (simp add: utf16_decode_bom decode_units_def bytes_units_unit_bytes)
  ultimately show ?thesis by blast
qed

lemma py_split_nonempty: "py_split sep s \<noteq> []"
  by (induction s) (auto split: list.splits)

lemma py_split_no_sep: "sep \<notin> set w \<Longrightarrow> py_split sep w = [w]"
  by (induction w) auto

lemma py_split_append:
  "sep \<notin> set w \<Longrightarrow> py_split sep (w @ sep # s) = w # py_split sep s"
  by (induction w) auto

lemma py_split_join:
  "ws \<noteq> [] \<Longrightarrow> \<forall>w\<in>set ws. sep \<notin> set w \<Longrightarrow> py_split sep (py_join sep ws) = ws"
proof (induction sep ws rule: py_join.induct)
  case (1 sep)
  then show ?case by simp
next
  case (2 sep w)
  then show ?case by (simp add: py_split_no_sep)
next
  case (3 sep w v ws)
  then show ?case by (simp add: py_split_append)
qed

lemma set_py_join: "set (py_join sep ws) \<subseteq> insert sep (\<Union>(set ` set ws))"
  by (induction sep ws rule: py_join.induct) auto

lemma before_nul_id: "0 \<notin> set s \<Longrightarrow> before_nul s = s"
  unfolding before_nul_def by (induction s) auto


lemma store_tag_dict:
  "metadata m = PDict md \<Longrightarrow> map_of md ifd = Some (PDict d) \<Longrightarrow>
   store_tag ifd tag v m =
     (Inr (), m\<lparr>metadata := PDict (dict_set md ifd (PDict (dict_set d (KInt tag) v)))\<rparr>)"
  by (simp add: store_tag_def)

lemma scalar_join:
  assumes "\<forall>w\<in>set ws. \<forall>c\<in>set w. scalar c"
  shows "\<forall>c\<in>set (py_join 59 ws). scalar c"
proof
  fix c assume "c \<in> set (py_join 59 ws)"
  with set_py_join [of 59 ws] have "c = 59 \<or> (\<exists>w\<in>set ws. c \<in> set w)" by auto
  with assms show "scalar c" by (auto simp: scalar_def)
qed

lemma no_nul_join:
  assumes "\<forall>w\<in>set ws. 0 \<notin> set w"
  shows "0 \<notin> set (py_join 59 ws)"
proof
  assume "0 \<in> set (py_join 59 ws)"
  with set_py_join [of 59 ws] have "\<exists>w\<in>set ws. 0 \<in> set w" by auto
  with assms show False by auto
qed

lemma get_keywords_stored:
  assumes "utf16_decode little b = Inr text"
  shows "get_keywords little sz
           (m\<lparr>metadata := PDict (dict_set md k_0th (PDict (dict_set d (KInt XPKeywords) (PBytes b))))\<rparr>)
         = Inr (py_split 59 (before_nul text))"
  using assms
  by (simp add: get_keywords_def has_0th_tag_def zeroth_tag_def map_of_dict_set)

text \<open>
  C3, as amended. For a manager whose metadata has the dictionary \<^verbatim>\<open>'0th'\<close>, and a
  list of keywords that is not empty, each keyword not empty, without \<^verbatim>\<open>';'\<close> and
  NUL and made of Unicode scalar values: \<^verbatim>\<open>add_keywords(keywords, overwrite=True)\<close>
  does not raise, and \<^verbatim>\<open>get_keywords\<close> then returns the same list in the same order.
\<close>

theorem keywords_roundtrip:
  assumes md: "metadata m = PDict md" and ifd: "map_of md k_0th = Some (PDict ifd)"
    and ne: "keywords \<noteq> []"
    and ws: "\<forall>w\<in>set keywords. w \<noteq> [] \<and> 59 \<notin> set w \<and> 0 \<notin> set w \<and> (\<forall>c\<in>set w. scalar c)"
  shows "fst (add_keywords little keywords True m) = Inr () \<and>
         get_keywords little sz (snd (add_keywords little keywords True m)) = Inr keywords"
proof -
  let ?s = "py_join 59 keywords"
  have "\<forall>c\<in>set ?s. scalar c" using ws by (intro scalar_join) simp
  from utf16_roundtrip [OF this] obtain b where
    b: "utf16_encode little ?s = Inr b" "utf16_decode little b = Inr ?s" by blast
  have nul: "before_nul ?s = ?s" using ws by (intro before_nul_id no_nul_join) simp
  have split: "py_split 59 ?s = keywords" using ne ws by (intro py_split_join) simp_all
  have add: "add_keywords little keywords True m =
      (Inr (), m\<lparr>metadata := PDict (dict_set md k_0th (PDict (dict_set ifd (KInt XPKeywords) (PBytes b))))\<rparr>)"
    using b(1) by (simp add: add_keywords_def store_tag_dict [OF md ifd])
  show ?thesis
    by (simp add: add get_keywords_stored [OF b(2)] nul split)
qed

theorem keywords_roundtrip_witness:
  "get_keywords True \<lparr>maxsize = 2 ^ 63 - 1, header = 33, memory = 2 ^ 30\<rparr>
     (snd (add_keywords True [lit ''sea'', lit ''sun''] True
        \<lparr>metadata = PDict [(k_0th, PDict [])], filepath = None, temporal_keywords = []\<rparr>))
   = Inr [lit ''sea'', lit ''sun'']"
  using keywords_roundtrip [of
      "\<lparr>metadata = PDict [(k_0th, PDict [])], filepath = None, temporal_keywords = []\<rparr>"
      "[(k_0th, PDict [])]" "[]" "[lit ''sea'', lit ''sun'']" True
      "\<lparr>maxsize = 2 ^ 63 - 1, header = 33, memory = 2 ^ 30\<rparr>"]
  by (simp add: lit_def scalar_def)

text \<open>
  As C3 is stated the keywords are any strings: the one-keyword list with the lone
  surrogate U+D800 meets its conditions, and \<^verbatim>\<open>add_keywords\<close> raises
  \<^verbatim>\<open>UnicodeEncodeError\<close> on it and stores nothing.
\<close>

theorem keywords_surrogate_counterexample:
  "[[0xD800]] \<noteq> [] \<and> [0xD800] \<noteq> [] \<and> 59 \<notin> set [0xD800 :: nat] \<and> 0 \<notin> set [0xD800 :: nat] \<and>
   add_keywords True [[0xD800]] True
     \<lparr>metadata = PDict [(k_0th, PDict [])], filepath = None, temporal_keywords = []\<rparr>
   = (Inl UnicodeEncodeError,
      \<lparr>metadata = PDict [(k_0th, PDict [])], filepath = None, temporal_keywords = []\<rparr>) \<and>
   get_keywords True \<lparr>maxsize = 2 ^ 63 - 1, header = 33, memory = 2 ^ 30\<rparr>
     (snd (add_keywords True [[0xD800]] True
        \<lparr>metadata = PDict [(k_0th, PDict [])], filepath = None, temporal_keywords = []\<rparr>))
   = Inr []"
  by (simp add: add_keywords_def utf16_encode_def get_keywords_def has_0th_tag_def
      k_0th_def XPKeywords_def)

subsection \<open>Getters of absent tags\<close>

lemma has_0th_tag_absent:
  "metadata m = PDict md \<Longrightarrow> map_of md k_0th = None \<Longrightarrow> has_0th_tag tag m = Inr False"
  by (simp add: has_0th_tag_def)

lemma has_0th_tag_dict:
  "metadata m = PDict md \<Longrightarrow> map_of md k_0th = Some (PDict d) \<Longrightarrow>
   has_0th_tag tag m = Inr (map_of d (KInt tag) \<noteq> None)"
  by (simp add: has_0th_tag_def)

lemma zeroth_tag_dict:
  "metadata m = PDict md \<Longrightarrow> map_of md k_0th = Some (PDict d) \<Longrightarrow>
   map_of d (KInt tag) = Some v \<Longrightarrow> zeroth_tag m tag = Inr v"
  by (simp add: zeroth_tag_def)

lemma get_0th_total:
  assumes "metadata m = PDict md"
    and "map_of md k_0th = None \<or> map_of md k_0th = Some (PDict d)"
  shows "\<exists>v. get_0th tag m = Inr v"
  using assms
  by (cases "map_of d (KInt tag)")
     (auto simp: get_0th_def has_0th_tag_absent has_0th_tag_dict zeroth_tag_dict)

lemma get_0th_absent:
  assumes "metadata m = PDict md"
    and "map_of md k_0th = None \<or> map_of md k_0th = Some (PDict d)"
    and "map_of md k_0th = None \<or> map_of d (KInt tag) = None"
  shows "get_0th tag m = Inr (PStr [])"
  using assms
  by (auto simp: get_0th_def has_0th_tag_absent has_0th_tag_dict)

lemma get_keywords_absent:
  assumes "metadata m = PDict md"
    and "map_of md k_0th = None \<or> map_of md k_0th = Some (PDict d)"
    and "map_of md k_0th = None \<or> map_of d (KInt XPKeywords) = None"
  shows "get_keywords little sz m = Inr []"
  using assms
  by (auto simp: get_keywords_def has_0th_tag_absent has_0th_tag_dict)

lemma get_keywords_present:
  assumes "metadata m = PDict md" and "map_of md k_0th = Some (PDict d)"
    and "map_of d (KInt XPKeywords) = Some raw" and "py_bytes sz raw = Inr b"
    and "utf16_decode little b = Inr s"
  shows "get_keywords little sz m = Inr (py_split 59 (before_nul s))"
  using assms
  by (simp add: get_keywords_def has_0th_tag_dict zeroth_tag_dict)

lemma get_0th_present:
  assumes "metadata m = PDict md" and "map_of md k_0th = Some (PDict d)"
    and "map_of d (KInt tag) = Some v"
  shows "get_0th tag m = Inr v"
  using assms by (simp add: get_0th_def has_0th_tag_dict zeroth_tag_dict)

lemma get_keywords_bytes_error:
  assumes "metadata m = PDict md" and "map_of md k_0th = Some (PDict d)"
    and "map_of d (KInt XPKeywords) = Some raw" and "py_bytes sz raw = Inl e"
  shows "get_keywords little sz m = Inl e"
  using assms
  by (simp add: get_keywords_def has_0th_tag_dict zeroth_tag_dict)

lemma get_keywords_decode_error:
  assumes "metadata m = PDict md" and "map_of md k_0th = Some (PDict d)"
    and "map_of d (KInt XPKeywords) = Some raw" and "py_bytes sz raw = Inr b"
    and "utf16_decode little b = Inl e"
  shows "get_keywords little sz m = Inl e"
  using assms
  by (simp add: get_keywords_def has_0th_tag_dict zeroth_tag_dict)

lemma utf16_empty:
  "utf16_encode little [] = Inr (unit_bytes little 0xFEFF)"
  "utf16_decode little (unit_bytes little 0xFEFF) = Inr []"
  by (simp_all add: utf16_encode_def utf16_decode_def unit_bytes_def decode_units_def)

lemma add_no_keywords:
  assumes "metadata m = PDict md" and "map_of md k_0th = Some (PDict d)"
  shows "get_keywords little sz (snd (add_keywords little [] True m)) = Inr [[]]"
proof -
  have "add_keywords little [] True m =
      (Inr (), m\<lparr>metadata := PDict (dict_set md k_0th
         (PDict (dict_set d (KInt XPKeywords) (PBytes (unit_bytes little 0xFEFF)))))\<rparr>)"
    using assms by (simp add: add_keywords_def utf16_empty store_tag_dict)
  then show ?thesis
    by (simp add: get_keywords_stored [OF utf16_empty(2)] before_nul_def)
qed

text \<open>
  C10, as amended. In a state whose metadata is a dictionary where \<^verbatim>\<open>'0th'\<close> is absent
  or a dictionary (\<open>d\<close>): the four getters of stored values never raise; each returns
  the empty string when \<^verbatim>\<open>'0th'\<close> or its tag is absent, and the stored value otherwise.
  \<^verbatim>\<open>get_keywords\<close> returns the empty list when \<^verbatim>\<open>'0th'\<close> or XPKeywords is absent; with a
  stored value it returns the split text when the value converts to bytes that decode
  as UTF-16, and raises otherwise: the exception of \<^verbatim>\<open>bytes\<close>, or that of the decoding.
  After \<^verbatim>\<open>add_keywords([], overwrite=True)\<close> it returns the list of the empty string.
\<close>

theorem getters_total:
  assumes md: "metadata m = PDict md"
    and d: "map_of md k_0th = None \<or> map_of md k_0th = Some (PDict d)"
  shows "(\<exists>v. get_camera_maker m = Inr v) \<and> (\<exists>v. get_camera_model m = Inr v) \<and>
         (\<exists>v. get_description m = Inr v) \<and> (\<exists>v. get_copyright m = Inr v) \<and>
         ((map_of md k_0th = None \<or> map_of d (KInt Make) = None) \<longrightarrow>
            get_camera_maker m = Inr (PStr [])) \<and>
         ((map_of md k_0th = None \<or> map_of d (KInt Model) = None) \<longrightarrow>
            get_camera_model m = Inr (PStr [])) \<and>
         ((map_of md k_0th = None \<or> map_of d (KInt ImageDescription) = None) \<longrightarrow>
            get_description m = Inr (PStr [])) \<and>
         ((map_of md k_0th = None \<or> map_of d (KInt Copyright) = None) \<longrightarrow>
            get_copyright m = Inr (PStr [])) \<and>
         ((map_of md k_0th = None \<or> map_of d (KInt XPKeywords) = None) \<longrightarrow>
            get_keywords little sz m = Inr []) \<and>
         (\<forall>raw b s. map_of md k_0th \<noteq> None \<and> map_of d (KInt XPKeywords) = Some raw \<and>
              py_bytes sz raw = Inr b \<and> utf16_decode little b = Inr s \<longrightarrow>
            get_keywords little sz m = Inr (py_split 59 (before_nul s))) \<and>
         (map_of md k_0th \<noteq> None \<longrightarrow>
            get_keywords little sz (snd (add_keywords little [] True m)) = Inr [[]]) \<and>
         (\<forall>raw e. map_of md k_0th \<noteq> None \<and> map_of d (KInt XPKeywords) = Some raw \<and>
              py_bytes sz raw = Inl e \<longrightarrow>
            get_keywords little sz m = Inl e) \<and>
         (\<forall>raw b e. map_of md k_0th \<noteq> None \<and> map_of d (KInt XPKeywords) = Some raw \<and>
              py_bytes sz raw = Inr b \<and> utf16_decode little b = Inl e \<longrightarrow>
            get_keywords little sz m = Inl e) \<and>
         (\<forall>v. map_of md k_0th \<noteq> None \<and> map_of d (KInt Make) = Some v \<longrightarrow>
            get_camera_maker m = Inr v) \<and>
         (\<forall>v. map_of md k_0th \<noteq> None \<and> map_of d (KInt Model) = Some v \<longrightarrow>
            get_camera_model m = Inr v) \<and>
         (\<forall>v. map_of md k_0th \<noteq> None \<and> map_of d (KInt ImageDescription) = Some v \<longrightarrow>
            get_description m = Inr v) \<and>
         (\<forall>v. map_of md k_0th \<noteq> None \<and> map_of d (KInt Copyright) = Some v \<longrightarrow>
            get_copyright m = Inr v)"
proof -
  have is_d: "map_of md k_0th = Some (PDict d)" if "map_of md k_0th \<noteq> None"
    using that d by auto
  have present: "get_0th tag m = Inr v"
    if "map_of md k_0th \<noteq> None" "map_of d (KInt tag) = Some v" for tag v
    using that by (intro get_0th_present [OF md is_d])
  have kw_bytes: "get_keywords little sz m = Inl e"
    if "map_of md k_0th \<noteq> None" "map_of d (KInt XPKeywords) = Some raw"
       "py_bytes sz raw = Inl e" for raw e
    using that by (intro get_keywords_bytes_error [OF md is_d])
  have kw_decode: "get_keywords little sz m = Inl e"
    if "map_of md k_0th \<noteq> None" "map_of d (KInt XPKeywords) = Some raw"
       "py_bytes sz raw = Inr b" "utf16_decode little b = Inl e" for raw b e
    using that by (intro get_keywords_decode_error [OF md is_d])
  have total: "\<exists>v. get_0th tag m = Inr v" for tag
    by (rule get_0th_total [OF md d])
  have absent: "map_of md k_0th = None \<or> map_of d (KInt tag) = None \<Longrightarrow>
      get_0th tag m = Inr (PStr [])" for tag
    by (rule get_0th_absent [OF md d])
  have kw_absent: "map_of md k_0th = None \<or> map_of d (KInt XPKeywords) = None \<Longrightarrow>
      get_keywords little sz m = Inr []"
    by (rule get_keywords_absent [OF md d])
  have kw_present: "get_keywords little sz m = Inr (py_split 59 (before_nul s))"
    if "map_of md k_0th \<noteq> None" "map_of d (KInt XPKeywords) = Some raw"
       "py_bytes sz raw = Inr b" "utf16_decode little b = Inr s" for raw b s
    using that d by (intro get_keywords_present [OF md]) auto
  have kw_add: "get_keywords little sz (snd (add_keywords little [] True m)) = Inr [[]]"
    if "map_of md k_0th \<noteq> None"
    using that d by (intro add_no_keywords [OF md]) auto
  show ?thesis
    unfolding get_camera_maker_def get_camera_model_def get_description_def get_copyright_def
    using total absent kw_absent kw_present kw_add kw_bytes kw_decode present by blast
qed


theorem getters_total_witness:
  "get_camera_maker
     \<lparr>metadata = PDict [(k_0th, PDict [(KInt Make, PBytes [78, 105])])], filepath = None,
      temporal_keywords = []\<rparr> = Inr (PBytes [78, 105]) \<and>
   get_camera_model
     \<lparr>metadata = PDict [(k_0th, PDict [(KInt Make, PBytes [78, 105])])], filepath = None,
      temporal_keywords = []\<rparr> = Inr (PStr []) \<and>
   get_keywords True \<lparr>maxsize = 2 ^ 63 - 1, header = 33, memory = 2 ^ 30\<rparr>
     \<lparr>metadata = PDict [(k_0th, PDict [(KInt Make, PBytes [78, 105])])], filepath = None,
      temporal_keywords = []\<rparr> = Inr [] \<and>
   get_keywords True \<lparr>maxsize = 2 ^ 63 - 1, header = 33, memory = 2 ^ 30\<rparr>
     (snd (add_keywords True [] True
        \<lparr>metadata = PDict [(k_0th, PDict [(KInt Make, PBytes [78, 105])])], filepath = None,
         temporal_keywords = []\<rparr>)) = Inr [[]]"
  using getters_total [of
      "\<lparr>metadata = PDict [(k_0th, PDict [(KInt Make, PBytes [78, 105])])], filepath = None,
        temporal_keywords = []\<rparr>"
      "[(k_0th, PDict [(KInt Make, PBytes [78, 105])])]"
      "[(KInt Make, PBytes [78, 105])]" True
      "\<lparr>maxsize = 2 ^ 63 - 1, header = 33, memory = 2 ^ 30\<rparr>"]
  by (simp add: Make_def Model_def XPKeywords_def get_camera_maker_def get_0th_def
      has_0th_tag_def zeroth_tag_def)

text \<open>
  As C10 is stated no getter raises in any state. With the odd number of bytes \<^verbatim>\<open>(65,)\<close>
  stored under XPKeywords, \<^verbatim>\<open>get_keywords\<close> raises \<^verbatim>\<open>UnicodeDecodeError\<close>, and with the
  integer \<^verbatim>\<open>10**30\<close> stored there \<^verbatim>\<open>OverflowError\<close>, on a machine of 64 bits; with a
  string stored under \<^verbatim>\<open>'0th'\<close>, \<^verbatim>\<open>get_camera_maker\<close> raises \<^verbatim>\<open>TypeError\<close>.
\<close>

theorem getters_raise_counterexample:
  "get_keywords True \<lparr>maxsize = 2 ^ 63 - 1, header = 33, memory = 2 ^ 30\<rparr>
     \<lparr>metadata = PDict [(k_0th, PDict [(KInt XPKeywords, PTuple [PInt 65])])], filepath = None,
      temporal_keywords = []\<rparr> = Inl UnicodeDecodeError \<and>
   get_keywords True \<lparr>maxsize = 2 ^ 63 - 1, header = 33, memory = 2 ^ 30\<rparr>
     \<lparr>metadata = PDict [(k_0th, PDict [(KInt XPKeywords, PInt (10 ^ 30))])], filepath = None,
      temporal_keywords = []\<rparr> = Inl OverflowError \<and>
   get_camera_maker
     \<lparr>metadata = PDict [(k_0th, PStr (lit ''text''))], filepath = None,
      temporal_keywords = []\<rparr> = Inl TypeError"
  by (simp add: get_keywords_def has_0th_tag_def zeroth_tag_def utf16_decode_def
      decode_units_def get_camera_maker_def get_0th_def zero_bytes_def)

subsection \<open>Setters and reachable states\<close>

lemma store_tag_temporal:
  "temporal_keywords (snd (store_tag ifd tag v m)) = temporal_keywords m"
  by (simp add: store_tag_def split: sum.splits)

lemma store_text_temporal:
  "temporal_keywords (snd (store_text ifd tag encoded m)) = temporal_keywords m"
  by (simp add: store_text_def store_tag_temporal split: sum.splits)

lemma run_all_temporal:
  assumes "\<And>stmt m. stmt \<in> set stmts \<Longrightarrow>
             temporal_keywords (snd (stmt m)) = temporal_keywords m"
  shows "temporal_keywords (snd (run_all stmts m)) = temporal_keywords m"
  using assms
proof (induction stmts arbitrary: m)
  case Nil
  then show ?case by simp
next
  case (Cons stmt stmts)
  have step: "temporal_keywords (snd (stmt m)) = temporal_keywords m" using Cons.prems by simp
  show ?case
  proof (cases "stmt m")
    case (Pair r m')
    show ?thesis
    proof (cases r)
      case (Inl e)
      with Pair step show ?thesis by simp
    next
      case (Inr u)
      have "temporal_keywords (snd (run_all stmts m')) = temporal_keywords m'"
        using Cons.prems by (intro Cons.IH) simp
      with Pair Inr step show ?thesis by simp
    qed
  qed
qed

lemma set_date_temporal:
  "temporal_keywords (snd (set_date s t datetime2str d m)) = temporal_keywords m"
proof (cases "datetime2str d")
  case (Inl e)
  then show ?thesis by (simp add: set_date_def)
next
  case (Inr encoded)
  have "temporal_keywords
          (snd (run_all [store_tag k_Exif s (PBytes [48, 48]), store_text k_Exif t encoded] m))
        = temporal_keywords m"
    by (rule run_all_temporal) (auto simp: store_tag_temporal store_text_temporal)
  with Inr show ?thesis by (simp add: set_date_def)
qed

lemma set_gps_data_temporal:
  "temporal_keywords (snd (set_gps_data deg2dms_zone lat lon alt mean_sea_level m))
   = temporal_keywords m"
  unfolding set_gps_data_def Let_def
  by (rule run_all_temporal) (auto simp: store_tag_temporal)

lemma add_keywords_temporal:
  "temporal_keywords (snd (add_keywords little kws overwrite m)) = temporal_keywords m"
  unfolding add_keywords_def Let_def
  by (auto split: sum.splits simp: store_tag_temporal)

lemma load_file_temporal:
  "temporal_keywords (snd (load_file load_metadata file m)) = [] \<or>
   temporal_keywords (snd (load_file load_metadata file m)) = temporal_keywords m"
  by (simp add: load_file_def Let_def split: sum.splits)

lemma reachable_temporal: "reachable m \<Longrightarrow> temporal_keywords m = []"
proof (induction rule: reachable.induct)
  case reach_init
  show ?case by (simp add: init_def)
next
  case (reach_load_file m load_metadata path)
  with load_file_temporal [of load_metadata path m] show ?case by auto
next
  case (reach_clear_metadata m)
  then show ?case by (simp add: clear_metadata_def)
next
  case (reach_metadata m v)
  then show ?case by simp
next
  case (reach_set_date_original m datetime2str new_datetime)
  then show ?case by (simp add: set_date_original_def set_date_temporal)
next
  case (reach_set_date_digitized m datetime2str new_datetime)
  then show ?case by (simp add: set_date_digitized_def set_date_temporal)
next
  case (reach_set_artist m artist)
  then show ?case by (simp add: set_artist_def store_text_temporal)
next
  case (reach_set_camera_maker m camera_maker)
  then show ?case by (simp add: set_camera_maker_def store_text_temporal)
next
  case (reach_set_camera_model m camera_model)
  then show ?case by (simp add: set_camera_model_def store_text_temporal)
next
  case (reach_set_copyright m img_copyright)
  then show ?case by (simp add: set_copyright_def store_text_temporal)
next
  case (reach_set_exif_version m version)
  then show ?case by (simp add: set_exif_version_def store_text_temporal)
next
  case (reach_set_software m software)
  then show ?case by (simp add: set_software_def store_text_temporal)
next
  case (reach_set_orientation m orientation)
  then show ?case by (simp add: set_orientation_def store_tag_temporal)
next
  case (reach_set_gps_data m deg2dms_zone lat lon alt mean_sea_level)
  then show ?case by (simp add: set_gps_data_temporal)
next
  case (reach_add_keywords m little kws overwrite)
  then show ?case by (simp add: add_keywords_temporal)
qed

text \<open>
  C8. In every reachable state the temporal keywords are the empty list, so
  \<^verbatim>\<open>add_keywords\<close> without \<open>overwrite\<close> does what it does with it. When the metadata
  has the dictionary \<^verbatim>\<open>'0th'\<close> and the keywords joined by \<^verbatim>\<open>';'\<close> encode as UTF-16, it
  does not raise and what is read under XPKeywords afterwards is these bytes, whatever
  was stored there before; when they do not encode, it raises and changes nothing.
\<close>

theorem overwrite_inert:
  assumes "reachable m"
  shows "add_keywords little keywords False m = add_keywords little keywords True m \<and>
     (\<forall>md ifd b.
        metadata m = PDict md \<and> map_of md k_0th = Some (PDict ifd) \<and>
        utf16_encode little (py_join 59 keywords) = Inr b \<longrightarrow>
          fst (add_keywords little keywords False m) = Inr () \<and>
          zeroth_tag (snd (add_keywords little keywords False m)) XPKeywords = Inr (PBytes b)) \<and>
     (\<forall>e. utf16_encode little (py_join 59 keywords) = Inl e \<longrightarrow>
          add_keywords little keywords False m = (Inl e, m))"
proof -
  have t: "temporal_keywords m = []" using assms by (rule reachable_temporal)
  have same: "add_keywords little keywords False m = add_keywords little keywords True m"
    by (simp add: add_keywords_def t)
  have stored: "fst (add_keywords little keywords False m) = Inr () \<and>
          zeroth_tag (snd (add_keywords little keywords False m)) XPKeywords = Inr (PBytes b)"
    if "metadata m = PDict md" "map_of md k_0th = Some (PDict ifd)"
      "utf16_encode little (py_join 59 keywords) = Inr b" for md ifd b
    using that by (simp add: add_keywords_def t store_tag_dict zeroth_tag_def map_of_dict_set)
  have raised: "add_keywords little keywords False m = (Inl e, m)"
    if "utf16_encode little (py_join 59 keywords) = Inl e" for e
    using that by (simp add: add_keywords_def t)
  from same stored raised show ?thesis by blast
qed

theorem overwrite_inert_witness:
  "zeroth_tag (snd (add_keywords True [lit ''a'', lit ''a''] False
     (init\<lparr>metadata := PDict [(k_0th, PDict [(KInt XPKeywords, PBytes [255, 254, 122, 0])])]\<rparr>)))
     XPKeywords
   = Inr (PBytes [255, 254, 97, 0, 59, 0, 97, 0]) \<and>
   fst (add_keywords True [lit ''a'', lit ''a''] False
     (init\<lparr>metadata := PDict [(k_0th, PDict [(KInt XPKeywords, PBytes [255, 254, 122, 0])])]\<rparr>))
   = Inr () \<and>
   add_keywords True [lit ''a'', lit ''a''] True
     (init\<lparr>metadata := PDict [(k_0th, PDict [(KInt XPKeywords, PBytes [255, 254, 122, 0])])]\<rparr>)
   = add_keywords True [lit ''a'', lit ''a''] False
     (init\<lparr>metadata := PDict [(k_0th, PDict [(KInt XPKeywords, PBytes [255, 254, 122, 0])])]\<rparr>)"
proof -
  have r: "reachable (init\<lparr>metadata := PDict [(k_0th, PDict [(KInt XPKeywords, PBytes [255, 254, 122, 0])])]\<rparr>)"
    by (intro reach_metadata reach_init)
  have b: "utf16_encode True (py_join 59 [lit ''a'', lit ''a''])
           = Inr [255, 254, 97, 0, 59, 0, 97, 0]"
    by (simp add: lit_def utf16_encode_def unit_bytes_def)
  note inert = overwrite_inert [OF r, of True "[lit ''a'', lit ''a'']"]
  from inert have same:
    "add_keywords True [lit ''a'', lit ''a''] False
       (init\<lparr>metadata := PDict [(k_0th, PDict [(KInt XPKeywords, PBytes [255, 254, 122, 0])])]\<rparr>)
     = add_keywords True [lit ''a'', lit ''a''] True
       (init\<lparr>metadata := PDict [(k_0th, PDict [(KInt XPKeywords, PBytes [255, 254, 122, 0])])]\<rparr>)"
    by (rule conjunct1)
  from inert [THEN conjunct2, THEN conjunct1] b have stored:
    "fst (add_keywords True [lit ''a'', lit ''a''] False
       (init\<lparr>metadata := PDict [(k_0th, PDict [(KInt XPKeywords, PBytes [255, 254, 122, 0])])]\<rparr>))
     = Inr () \<and>
     zeroth_tag (snd (add_keywords True [lit ''a'', lit ''a''] False
       (init\<lparr>metadata := PDict [(k_0th, PDict [(KInt XPKeywords, PBytes [255, 254, 122, 0])])]\<rparr>)))
       XPKeywords
     = Inr (PBytes [255, 254, 97, 0, 59, 0, 97, 0])"
    by simp
  from same stored show ?thesis by (simp only: simp_thms)
qed


subsection \<open>What a setter changes\<close>

lemma changes_only_refl: "changes_only ifd tags s s"
  by (simp add: changes_only_def split: sum.splits oval.splits)

lemma o_getitem_str_cases:
  "o_getitem st top_ref (KStr n) = Inr c \<Longrightarrow>
   \<exists>r d. top_ref = ORef r \<and> st r = Some (ODict d) \<and> map_of d (KStr n) = Some c"
  by (cases top_ref) (auto split: option.splits obj.splits)

lemma target_stable:
  assumes "changes_only (KStr n) tags s s'"
  shows "o_getitem (store s') (ometadata s') (KStr n) = o_getitem (store s) (ometadata s) (KStr n)"
proof (cases "o_getitem (store s) (ometadata s) (KStr n)")
  case (Inl e)
  with assms show ?thesis by (simp add: changes_only_def)
next
  case (Inr c)
  from o_getitem_str_cases [OF Inr] obtain r d where
    r: "ometadata s = ORef r" "store s r = Some (ODict d)" "map_of d (KStr n) = Some c"
    by blast
  show ?thesis
  proof (cases "\<exists>a. c = ORef a")
    case False
    with assms Inr have "store s' = store s"
      by (cases c) (auto simp: changes_only_def)
    with assms show ?thesis by (simp add: changes_only_def)
  next
    case True
    then obtain a where a: "c = ORef a" by blast
    from assms Inr a have same_top: "ometadata s' = ometadata s"
      and others: "\<forall>a'. a' \<noteq> a \<longrightarrow> store s' a' = store s a'"
      and dict: "\<forall>d. store s a = Some (ODict d) \<longrightarrow>
             (\<exists>d'. store s' a = Some (ODict d') \<and>
                (\<forall>t. t \<notin> KInt ` tags \<longrightarrow> map_of d' t = map_of d t))"
      by (simp_all add: changes_only_def)
    show ?thesis
    proof (cases "a = r")
      case True
      with dict r obtain d' where d': "store s' r = Some (ODict d')"
        "\<forall>t. t \<notin> KInt ` tags \<longrightarrow> map_of d' t = map_of d t" by blast
      have "KStr n \<notin> KInt ` tags" by auto
      with d' have "map_of d' (KStr n) = map_of d (KStr n)" by blast
      with d' r same_top Inr show ?thesis by simp
    next
      case False
      with others have "store s' r = store s r" by simp
      with r same_top Inr show ?thesis by simp
    qed
  qed
qed

lemma changes_only_trans:
  assumes ab: "changes_only (KStr n) tags a b" and bc: "changes_only (KStr n) tags b c"
  shows "changes_only (KStr n) tags a c"
proof -
  note stable = target_stable [OF ab]
  have fields: "ometadata c = ometadata a" "ofilepath c = ofilepath a"
    "otemporal_keywords c = otemporal_keywords a"
    using ab bc by (simp_all add: changes_only_def)
  show ?thesis
  proof (cases "\<exists>t. o_getitem (store a) (ometadata a) (KStr n) = Inr (ORef t)")
    case False
    then have "store b = store a"
      using ab by (auto simp: changes_only_def split: sum.splits oval.splits)
    moreover from False stable have "store c = store b"
      using bc by (auto simp: changes_only_def split: sum.splits oval.splits)
    ultimately show ?thesis using fields False
      by (auto simp: changes_only_def split: sum.splits oval.splits)
  next
    case True
    then obtain t where t: "o_getitem (store a) (ometadata a) (KStr n) = Inr (ORef t)" by blast
    with stable have t': "o_getitem (store b) (ometadata b) (KStr n) = Inr (ORef t)" by simp
    from ab t have ab1: "\<forall>a'. a' \<noteq> t \<longrightarrow> store b a' = store a a'"
      and ab2: "\<forall>d. store a t = Some (ODict d) \<longrightarrow>
             (\<exists>d'. store b t = Some (ODict d') \<and>
                (\<forall>k. k \<notin> KInt ` tags \<longrightarrow> map_of d' k = map_of d k))"
      by (simp_all add: changes_only_def)
    from bc t' have bc1: "\<forall>a'. a' \<noteq> t \<longrightarrow> store c a' = store b a'"
      and bc2: "\<forall>d. store b t = Some (ODict d) \<longrightarrow>
             (\<exists>d'. store c t = Some (ODict d') \<and>
                (\<forall>k. k \<notin> KInt ` tags \<longrightarrow> map_of d' k = map_of d k))"
      by (simp_all add: changes_only_def)
    have "\<forall>d. store a t = Some (ODict d) \<longrightarrow>
             (\<exists>d'. store c t = Some (ODict d') \<and>
                (\<forall>k. k \<notin> KInt ` tags \<longrightarrow> map_of d' k = map_of d k))"
    proof (intro allI impI)
      fix d assume "store a t = Some (ODict d)"
      with ab2 obtain d' where d': "store b t = Some (ODict d')"
        "\<forall>k. k \<notin> KInt ` tags \<longrightarrow> map_of d' k = map_of d k" by blast
      with bc2 obtain d'' where "store c t = Some (ODict d'')"
        "\<forall>k. k \<notin> KInt ` tags \<longrightarrow> map_of d'' k = map_of d' k" by blast
      with d' show "\<exists>d'. store c t = Some (ODict d') \<and>
                (\<forall>k. k \<notin> KInt ` tags \<longrightarrow> map_of d' k = map_of d k)" by auto
    qed
    with ab1 bc1 fields t show ?thesis by (simp add: changes_only_def)
  qed
qed

lemma run_all_changes:
  assumes "\<And>stmt s. stmt \<in> set stmts \<Longrightarrow> changes_only (KStr n) tags s (snd (stmt s))"
  shows "changes_only (KStr n) tags s (snd (run_all stmts s))"
  using assms
proof (induction stmts arbitrary: s)
  case Nil
  then show ?case by (simp add: changes_only_refl)
next
  case (Cons stmt stmts)
  have step: "changes_only (KStr n) tags s (snd (stmt s))" using Cons.prems by simp
  show ?case
  proof (cases "stmt s")
    case (Pair r s')
    show ?thesis
    proof (cases r)
      case (Inl e)
      with Pair step show ?thesis by simp
    next
      case (Inr u)
      have "changes_only (KStr n) tags s' (snd (run_all stmts s'))"
        using Cons.prems by (intro Cons.IH) simp
      with Pair Inr step show ?thesis
        by (auto intro: changes_only_trans)
    qed
  qed
qed

lemma o_setitem_cases:
  "o_setitem st c k v = Inr st' \<Longrightarrow>
   \<exists>a. c = ORef a \<and>
     ((\<exists>d. st a = Some (ODict d) \<and> st' = st(a \<mapsto> ODict (dict_set d k v))) \<or>
      (\<exists>xs ys. st a = Some (OList xs) \<and> st' = st(a \<mapsto> OList ys)))"
  by (cases c) (auto split: option.splits obj.splits pykey.splits)

lemma store_tag_obj_changes:
  assumes "tag \<in> tags"
  shows "changes_only ifd tags s (snd (store_tag_obj ifd tag v s))"
proof (cases "o_getitem (store s) (ometadata s) ifd")
  case (Inl e)
  then show ?thesis by (simp add: store_tag_obj_def changes_only_refl)
next
  case (Inr c)
  show ?thesis
  proof (cases "o_setitem (store s) c (KInt tag) v")
    case (Inl e)
    with Inr show ?thesis by (simp add: store_tag_obj_def changes_only_refl)
  next
    case set: (Inr st')
    from o_setitem_cases [OF set] obtain a where a: "c = ORef a"
      and st': "(\<exists>d. store s a = Some (ODict d) \<and>
                   st' = (store s)(a \<mapsto> ODict (dict_set d (KInt tag) v))) \<or>
                (\<exists>xs ys. store s a = Some (OList xs) \<and> st' = (store s)(a \<mapsto> OList ys))"
      by blast
    have s': "snd (store_tag_obj ifd tag v s) = s\<lparr>store := st'\<rparr>"
      using Inr set by (simp add: store_tag_obj_def)
    from st' assms show ?thesis
      unfolding s' changes_only_def
      by (auto simp: Inr a map_of_dict_set)
  qed
qed

lemma store_text_obj_changes:
  "tag \<in> tags \<Longrightarrow> changes_only ifd tags s (snd (store_text_obj ifd tag encoded s))"
  by (cases "utf8_encode encoded")
     (simp_all add: store_text_obj_def changes_only_refl store_tag_obj_changes)

lemma set_date_obj_changes:
  "changes_only k_Exif {st, t} s (snd (set_date_obj st t datetime2str d s))"
proof (cases "datetime2str d")
  case (Inl e)
  then show ?thesis by (simp add: set_date_obj_def changes_only_refl)
next
  case (Inr encoded)
  have "changes_only k_Exif {st, t} s
          (snd (run_all [store_tag_obj k_Exif st (OBytes [48, 48]),
                         store_text_obj k_Exif t encoded] s))"
    unfolding k_Exif_def
    by (rule run_all_changes) (auto simp: store_tag_obj_changes store_text_obj_changes)
  with Inr show ?thesis by (simp add: set_date_obj_def)
qed

lemma set_gps_data_obj_changes:
  "changes_only k_GPS
     {GPSVersionID, GPSAltitudeRef, GPSLatitudeRef, GPSLongitudeRef, GPSLatitude,
      GPSLongitude, GPSAltitude} s
     (snd (set_gps_data_obj deg2dms_zone lat lon alt mean_sea_level s))"
  unfolding set_gps_data_obj_def Let_def k_GPS_def
  by (rule run_all_changes) (auto simp: store_tag_obj_changes)

lemma add_keywords_obj_changes:
  "changes_only k_0th {XPKeywords} s (snd (add_keywords_obj little kws overwrite s))"
  unfolding add_keywords_obj_def Let_def
  by (auto split: sum.splits simp: changes_only_refl store_tag_obj_changes)

text \<open>
  C9, as amended. Whether it raises or not, each setter leaves the file path, the
  temporal keywords and what \<^verbatim>\<open>self.metadata\<close> refers to as they were, and changes no
  object but the one that \<^verbatim>\<open>self.metadata[ifd]\<close> refers to for its own \<open>ifd\<close>; when that
  object is a dictionary, every entry of it but the setter's own tags is as it was: the
  date tag and its SubSecTime tag for a date setter, the seven GPS tags for
  \<^verbatim>\<open>set_gps_data\<close>, one tag for each other setter. So every other dictionary of the
  metadata that is another object is unchanged; one that is the same object is not, as
  the example after the theorem shows.
\<close>

theorem setters_frame:
  "changes_only k_Exif {SubSecTimeOriginal, DateTimeOriginal} s
     (snd (set_date_original_obj datetime2str new_datetime s)) \<and>
   changes_only k_Exif {SubSecTimeDigitized, DateTimeDigitized} s
     (snd (set_date_digitized_obj datetime2str new_datetime s)) \<and>
   changes_only k_0th {Artist} s (snd (set_artist_obj artist s)) \<and>
   changes_only k_0th {Make} s (snd (set_camera_maker_obj camera_maker s)) \<and>
   changes_only k_0th {Model} s (snd (set_camera_model_obj camera_model s)) \<and>
   changes_only k_0th {Copyright} s (snd (set_copyright_obj img_copyright s)) \<and>
   changes_only k_Exif {ExifVersion} s (snd (set_exif_version_obj version s)) \<and>
   changes_only k_0th {Software} s (snd (set_software_obj software s)) \<and>
   changes_only k_0th {Orientation} s (snd (set_orientation_obj orientation s)) \<and>
   changes_only k_GPS
     {GPSVersionID, GPSAltitudeRef, GPSLatitudeRef, GPSLongitudeRef, GPSLatitude,
      GPSLongitude, GPSAltitude} s
     (snd (set_gps_data_obj deg2dms_zone lat lon alt mean_sea_level s)) \<and>
   changes_only k_0th {XPKeywords} s (snd (add_keywords_obj little kws overwrite s))"
  by (simp add: set_date_original_obj_def set_date_digitized_obj_def set_date_obj_changes
      set_artist_obj_def set_camera_maker_obj_def set_camera_model_obj_def
      set_copyright_obj_def set_exif_version_obj_def set_software_obj_def
      set_orientation_obj_def store_text_obj_changes store_tag_obj_changes
      set_gps_data_obj_changes add_keywords_obj_changes)


theorem setters_frame_witness:
  "store (snd (set_artist_obj (lit ''Ann'')
      \<lparr>ometadata = ORef 0,
       store = map_of [(0, ODict [(k_Exif, ORef 1), (k_0th, ORef 2), (k_GPS, ORef 3)]),
                       (1, ODict []), (2, ODict [(KInt Make, OBytes [78])]), (3, ODict [])],
       ofilepath = None, otemporal_keywords = []\<rparr>)) 1 = Some (ODict []) \<and>
   tag_obj (snd (set_artist_obj (lit ''Ann'')
      \<lparr>ometadata = ORef 0,
       store = map_of [(0, ODict [(k_Exif, ORef 1), (k_0th, ORef 2), (k_GPS, ORef 3)]),
                       (1, ODict []), (2, ODict [(KInt Make, OBytes [78])]), (3, ODict [])],
       ofilepath = None, otemporal_keywords = []\<rparr>)) k_0th Make = Inr (OBytes [78]) \<and>
   tag_obj (snd (set_artist_obj (lit ''Ann'')
      \<lparr>ometadata = ORef 0,
       store = map_of [(0, ODict [(k_Exif, ORef 1), (k_0th, ORef 2), (k_GPS, ORef 3)]),
                       (1, ODict []), (2, ODict [(KInt Make, OBytes [78])]), (3, ODict [])],
       ofilepath = None, otemporal_keywords = []\<rparr>)) k_0th Artist
     = Inr (OBytes [65, 110, 110]) \<and>
   tag_obj (snd (set_artist_obj (lit ''Ann'')
      \<lparr>ometadata = ORef 0,
       store = map_of [(0, ODict [(k_Exif, ORef 1), (k_0th, ORef 2), (k_GPS, ORef 3)]),
                       (1, ODict []), (2, ODict [(KInt Make, OBytes [78])]), (3, ODict [])],
       ofilepath = None, otemporal_keywords = []\<rparr>)) k_Exif Artist = Inl KeyError"
proof -
  let ?s = "\<lparr>ometadata = ORef 0,
       store = map_of [(0, ODict [(k_Exif, ORef 1), (k_0th, ORef 2), (k_GPS, ORef 3)]),
                       (1, ODict []), (2, ODict [(KInt Make, OBytes [78])]), (3, ODict [])],
       ofilepath = None, otemporal_keywords = []\<rparr>"
  let ?s' = "snd (set_artist_obj (lit ''Ann'') ?s)"
  have frame: "changes_only k_0th {Artist} ?s ?s'"
    using setters_frame [where s = ?s and artist = "lit ''Ann''"] by blast
  have target: "o_getitem (store ?s) (ometadata ?s) k_0th = Inr (ORef 2)"
    by (simp add: k_Exif_def k_0th_def k_GPS_def lit_def)
  from frame target have others: "\<forall>a'. a' \<noteq> 2 \<longrightarrow> store ?s' a' = store ?s a'"
    and dict: "\<forall>d. store ?s 2 = Some (ODict d) \<longrightarrow>
             (\<exists>d'. store ?s' 2 = Some (ODict d') \<and>
                (\<forall>t. t \<notin> KInt ` {Artist} \<longrightarrow> map_of d' t = map_of d t))"
    and top: "ometadata ?s' = ometadata ?s"
    unfolding changes_only_def by simp_all
  from others have one: "store ?s' 1 = Some (ODict [])" and zero: "store ?s' 0 = store ?s 0"
    by simp_all
  from dict obtain d' where d': "store ?s' 2 = Some (ODict d')"
    and same: "\<forall>t. t \<notin> KInt ` {Artist} \<longrightarrow> map_of d' t = map_of [(KInt Make, OBytes [78])] t"
    by auto
  have "KInt Make \<notin> KInt ` {Artist}" by (simp add: Make_def Artist_def)
  with same have "map_of d' (KInt Make) = Some (OBytes [78])" by simp
  with d' zero top have maker: "tag_obj ?s' k_0th Make = Inr (OBytes [78])"
    by (simp add: tag_obj_def k_Exif_def k_0th_def k_GPS_def lit_def)
  from one zero top have exif: "tag_obj ?s' k_Exif Artist = Inl KeyError"
    by (simp add: tag_obj_def k_Exif_def k_0th_def k_GPS_def lit_def)
  have written: "tag_obj ?s' k_0th Artist = Inr (OBytes [65, 110, 110])"
    by (simp add: tag_obj_def set_artist_obj_def store_text_obj_def store_tag_obj_def
        utf8_char_def lit_def k_Exif_def k_0th_def k_GPS_def Make_def Artist_def)
  from one maker written exif show ?thesis by simp
qed

text \<open>
  With \<^verbatim>\<open>d = {}\<close> and \<^verbatim>\<open>metadata = {'Exif': d, '0th': d}\<close>, \<^verbatim>\<open>set_artist('Ann')\<close> writes
  the Artist tag of \<^verbatim>\<open>'0th'\<close>, and \<^verbatim>\<open>metadata['Exif']\<close> has it too.
\<close>

theorem shared_ifd_counterexample:
  "tag_obj
      \<lparr>ometadata = ORef 0,
       store = map_of [(0, ODict [(k_Exif, ORef 1), (k_0th, ORef 1)]), (1, ODict [])],
       ofilepath = None, otemporal_keywords = []\<rparr> k_Exif Artist = Inl KeyError \<and>
   fst (set_artist_obj (lit ''Ann'')
      \<lparr>ometadata = ORef 0,
       store = map_of [(0, ODict [(k_Exif, ORef 1), (k_0th, ORef 1)]), (1, ODict [])],
       ofilepath = None, otemporal_keywords = []\<rparr>) = Inr () \<and>
   tag_obj (snd (set_artist_obj (lit ''Ann'')
      \<lparr>ometadata = ORef 0,
       store = map_of [(0, ODict [(k_Exif, ORef 1), (k_0th, ORef 1)]), (1, ODict [])],
       ofilepath = None, otemporal_keywords = []\<rparr>)) k_Exif Artist
     = Inr (OBytes [65, 110, 110])"
  by (simp add: tag_obj_def set_artist_obj_def store_text_obj_def store_tag_obj_def
      utf8_char_def lit_def k_Exif_def k_0th_def Artist_def)

subsection \<open>Presence of GPS data\<close>

lemma gps_tag_absent:
  "metadata m = PDict md \<Longrightarrow> map_of md k_GPS = None \<Longrightarrow> gps_tag m t = Inl KeyError"
  by (simp add: gps_tag_def)

lemma gps_tag_dict:
  "metadata m = PDict md \<Longrightarrow> map_of md k_GPS = Some (PDict g) \<Longrightarrow>
   gps_tag m t = (case map_of g (KInt t) of None \<Rightarrow> Inl KeyError | Some v \<Rightarrow> Inr v)"
  by (simp add: gps_tag_def)

lemma float_limit_above: "2 ^ 32 < float_limit"
proof -
  have "(2::real) ^ 970 \<le> 2 ^ 1023" by (rule power_increasing) simp_all
  moreover have "(2::real) ^ 1024 = 2 * 2 ^ 1023" by simp
  moreover have "(2::real) ^ 32 < 2 ^ 1023" by (rule power_strict_increasing) simp_all
  ultimately show ?thesis unfolding float_limit_def by linarith
qed

lemma below_float_limit: "x < 2 ^ 32 \<Longrightarrow> \<not> float_limit \<le> x"
  using float_limit_above by simp

lemma float_limit_pow: "float_limit \<le> 10 ^ 400"
proof -
  have "(2::real) ^ 1024 \<le> (2 ^ 3) ^ 400" unfolding power_mult [symmetric]
    by (rule power_increasing) simp_all
  also have "\<dots> \<le> (10::real) ^ 400" by (rule power_mono) simp_all
  finally show ?thesis unfolding float_limit_def by simp
qed

lemma py_truediv_32:
  assumes "d \<noteq> 0" and "\<bar>n\<bar> < 2 ^ 32"
  shows "py_truediv (PInt n) (PInt d) = Inr (of_int n / of_int d)"
proof -
  have "1 \<le> \<bar>real_of_int d\<bar>" using assms(1) by (simp add: abs_if)
  then have "\<bar>real_of_int n\<bar> / \<bar>real_of_int d\<bar> \<le> \<bar>real_of_int n\<bar> / 1"
    by (intro divide_left_mono) simp_all
  then have "\<bar>real_of_int n / real_of_int d\<bar> \<le> \<bar>real_of_int n\<bar>"
    by simp
  also have "\<bar>real_of_int n\<bar> < 2 ^ 32"
  proof -
    have "real_of_int \<bar>n\<bar> < real_of_int (2 ^ 32)" using assms(2) by (simp only: of_int_less_iff)
    then show ?thesis by simp
  qed
  also note float_limit_above
  finally have "\<not> float_limit \<le> \<bar>real_of_int n / real_of_int d\<bar>" by simp
  with assms(1) show ?thesis by (simp add: py_truediv_def)
qed

lemma quotient_at_rational:
  assumes "norm_index (length xs) i = Some pos" and "is_rational (xs ! pos)"
  shows "\<exists>r. quotient_at (PTuple xs) i = Inr r"
proof -
  from assms(2) obtain n d where nd: "xs ! pos = PTuple [PInt n, PInt d]" "d \<noteq> 0"
    "\<bar>n\<bar> < 2 ^ 32"
    by (auto elim: is_rational.elims)
  then show ?thesis using assms(1)
    by (simp add: quotient_at_def seq_index_def norm_index_def py_truediv_32)
qed

lemma gps2val_dms:
  assumes "is_dms v"
  shows "\<exists>r. gps2val dms_zone2deg v zp = Inr r"
proof -
  from assms obtain a b c where v: "v = PTuple [a, b, c]"
    and r: "is_rational a" "is_rational b" "is_rational c"
    by (auto elim: is_dms.elims)
  have "\<exists>r. quotient_at (PTuple [a, b, c]) 0 = Inr r"
    by (rule quotient_at_rational [where pos = 0]) (simp_all add: norm_index_def r)
  moreover have "\<exists>r. quotient_at (PTuple [a, b, c]) 1 = Inr r"
    by (rule quotient_at_rational [where pos = 1]) (simp_all add: norm_index_def r)
  moreover have "\<exists>r. quotient_at (PTuple [a, b, c]) 2 = Inr r"
    by (rule quotient_at_rational [where pos = 2]) (simp_all add: norm_index_def r)
  ultimately show ?thesis unfolding v by (auto simp: gps2val_def)
qed

lemma altitude_rational:
  assumes "is_rational v"
  shows "\<exists>num den r. py_getitem v (KInt 0) = Inr num \<and> py_getitem v (KInt 1) = Inr den \<and>
           py_truediv num den = Inr r"
proof -
  from assms obtain n d where "v = PTuple [PInt n, PInt d]" "d \<noteq> 0" "\<bar>n\<bar> < 2 ^ 32"
    by (auto elim: is_rational.elims)
  then show ?thesis
    by (simp add: seq_index_def norm_index_def py_truediv_32)
qed

lemma get_gps_data_absent:
  "metadata m = PDict md \<Longrightarrow> map_of md k_GPS = None \<Longrightarrow>
   get_gps_data dms_zone2deg m = Inl KeyError"
  by (simp add: get_gps_data_def gps_tag_absent)

lemma get_gps_data_dict:
  assumes md: "metadata m = PDict md" and g: "map_of md k_GPS = Some (PDict g)"
    and lat: "\<forall>v. map_of g (KInt GPSLatitude) = Some v \<longrightarrow> is_dms v"
    and lon: "\<forall>v. map_of g (KInt GPSLongitude) = Some v \<longrightarrow> is_dms v"
    and alt: "\<forall>v. map_of g (KInt GPSAltitude) = Some v \<longrightarrow> is_rational v"
  shows "if map_of g (KInt GPSLatitude) \<noteq> None \<and> map_of g (KInt GPSLatitudeRef) \<noteq> None \<and>
            map_of g (KInt GPSLongitude) \<noteq> None \<and> map_of g (KInt GPSLongitudeRef) \<noteq> None \<and>
            map_of g (KInt GPSAltitude) \<noteq> None \<and> map_of g (KInt GPSAltitudeRef) \<noteq> None
         then \<exists>r. get_gps_data dms_zone2deg m = Inr r
         else get_gps_data dms_zone2deg m = Inl KeyError"
proof (cases "map_of g (KInt GPSLatitude)")
  case None
  then show ?thesis by (simp add: get_gps_data_def gps_tag_dict [OF md g])
next
  case lat_v: (Some la)
  with lat have "is_dms la" by simp
  then have la: "\<exists>r. gps2val dms_zone2deg la zp = Inr r" for zp by (rule gps2val_dms)
  show ?thesis
  proof (cases "map_of g (KInt GPSLatitudeRef)")
    case None
    with lat_v show ?thesis by (simp add: get_gps_data_def gps_tag_dict [OF md g])
  next
    case latref: (Some lar)
    obtain r1 where r1: "gps2val dms_zone2deg la (py_eq_bytes lar [78]) = Inr r1"
      using la by blast
    show ?thesis
    proof (cases "map_of g (KInt GPSLongitude)")
      case None
      with lat_v latref r1 show ?thesis by (simp add: get_gps_data_def gps_tag_dict [OF md g])
    next
      case lon_v: (Some lo)
      with lon have "is_dms lo" by simp
      then have lo: "\<exists>r. gps2val dms_zone2deg lo zp = Inr r" for zp by (rule gps2val_dms)
      show ?thesis
      proof (cases "map_of g (KInt GPSLongitudeRef)")
        case None
        with lat_v latref r1 lon_v show ?thesis
          by (simp add: get_gps_data_def gps_tag_dict [OF md g])
      next
        case lonref: (Some lor)
        obtain r2 where r2: "gps2val dms_zone2deg lo (py_eq_bytes lor [69]) = Inr r2"
          using lo by blast
        show ?thesis
        proof (cases "map_of g (KInt GPSAltitude)")
          case None
          with lat_v latref r1 lon_v lonref r2 show ?thesis
            by (simp add: get_gps_data_def gps_tag_dict [OF md g])
        next
          case alt_v: (Some al)
          with alt have "is_rational al" by simp
          from altitude_rational [OF this] obtain num den r3 where
            r3: "py_getitem al (KInt 0) = Inr num" "py_getitem al (KInt 1) = Inr den"
                "py_truediv num den = Inr r3" by blast
          show ?thesis
          proof (cases "map_of g (KInt GPSAltitudeRef)")
            case None
            with lat_v latref r1 lon_v lonref r2 alt_v show ?thesis
              by (simp add: get_gps_data_def gps_tag_dict [OF md g])
          next
            case (Some ar)
            with lat_v latref r1 lon_v lonref r2 alt_v r3 show ?thesis
              by (simp add: get_gps_data_def gps_tag_dict [OF md g])
          qed
        qed
      qed
    qed
  qed
qed

text \<open>
  C7, as amended. In a state whose metadata is a dictionary where \<^verbatim>\<open>'GPS'\<close> is absent
  or a dictionary (\<open>g\<close>) in which the latitude and the longitude, when present, are
  three pairs of integers of 32 bits (of absolute value below \<open>2 ^ 32\<close>, as piexif
  reads a rational) with non-zero denominators and the altitude, when present, is one
  such pair: \<^verbatim>\<open>has_gps_data\<close> does not raise, and it is true exactly when \<^verbatim>\<open>'GPS'\<close> and
  the six tags that \<^verbatim>\<open>get_gps_data\<close> reads are present.
\<close>

theorem has_gps_data_present:
  assumes md: "metadata m = PDict md"
    and g: "map_of md k_GPS = None \<or> map_of md k_GPS = Some (PDict g)"
    and lat: "\<forall>v. map_of g (KInt GPSLatitude) = Some v \<longrightarrow> is_dms v"
    and lon: "\<forall>v. map_of g (KInt GPSLongitude) = Some v \<longrightarrow> is_dms v"
    and alt: "\<forall>v. map_of g (KInt GPSAltitude) = Some v \<longrightarrow> is_rational v"
  shows "has_gps_data dms_zone2deg m =
           Inr (map_of md k_GPS \<noteq> None \<and>
                map_of g (KInt GPSLatitude) \<noteq> None \<and> map_of g (KInt GPSLatitudeRef) \<noteq> None \<and>
                map_of g (KInt GPSLongitude) \<noteq> None \<and> map_of g (KInt GPSLongitudeRef) \<noteq> None \<and>
                map_of g (KInt GPSAltitude) \<noteq> None \<and> map_of g (KInt GPSAltitudeRef) \<noteq> None)"
proof (cases "map_of md k_GPS")
  case None
  then show ?thesis by (simp add: has_gps_data_def get_gps_data_absent [OF md])
next
  case (Some v)
  with g have gd: "map_of md k_GPS = Some (PDict g)" by simp
  from get_gps_data_dict [OF md gd lat lon alt, of dms_zone2deg] gd
  show ?thesis
    by (auto simp: has_gps_data_def split: if_splits)
qed


theorem has_gps_data_present_witness:
  "has_gps_data spec_dms_zone2deg
     (\<lparr>metadata = PDict [(k_GPS, PDict
          [(KInt GPSLatitudeRef, PBytes [78]),
           (KInt GPSLatitude,
            PTuple [PTuple [PInt 10, PInt 1], PTuple [PInt 30, PInt 1], PTuple [PInt 0, PInt 100]]),
           (KInt GPSLongitudeRef, PBytes [69]),
           (KInt GPSLongitude,
            PTuple [PTuple [PInt 20, PInt 1], PTuple [PInt 15, PInt 1], PTuple [PInt 0, PInt 100]]),
           (KInt GPSAltitudeRef, PInt 0),
           (KInt GPSAltitude, PTuple [PInt 500, PInt 100])])],
        filepath = None, temporal_keywords = []\<rparr>) = Inr True \<and>
   has_gps_data spec_dms_zone2deg
     \<lparr>metadata = PDict [(k_GPS, PDict [(KInt GPSLatitudeRef, PBytes [78])])],
      filepath = None, temporal_keywords = []\<rparr> = Inr False"
  using has_gps_data_present [of
      "\<lparr>metadata = PDict [(k_GPS, PDict
          [(KInt GPSLatitudeRef, PBytes [78]),
           (KInt GPSLatitude,
            PTuple [PTuple [PInt 10, PInt 1], PTuple [PInt 30, PInt 1], PTuple [PInt 0, PInt 100]]),
           (KInt GPSLongitudeRef, PBytes [69]),
           (KInt GPSLongitude,
            PTuple [PTuple [PInt 20, PInt 1], PTuple [PInt 15, PInt 1], PTuple [PInt 0, PInt 100]]),
           (KInt GPSAltitudeRef, PInt 0),
           (KInt GPSAltitude, PTuple [PInt 500, PInt 100])])],
        filepath = None, temporal_keywords = []\<rparr>"
      "[(k_GPS, PDict
          [(KInt GPSLatitudeRef, PBytes [78]),
           (KInt GPSLatitude,
            PTuple [PTuple [PInt 10, PInt 1], PTuple [PInt 30, PInt 1], PTuple [PInt 0, PInt 100]]),
           (KInt GPSLongitudeRef, PBytes [69]),
           (KInt GPSLongitude,
            PTuple [PTuple [PInt 20, PInt 1], PTuple [PInt 15, PInt 1], PTuple [PInt 0, PInt 100]]),
           (KInt GPSAltitudeRef, PInt 0),
           (KInt GPSAltitude, PTuple [PInt 500, PInt 100])])]"
      "[(KInt GPSLatitudeRef, PBytes [78]),
           (KInt GPSLatitude,
            PTuple [PTuple [PInt 10, PInt 1], PTuple [PInt 30, PInt 1], PTuple [PInt 0, PInt 100]]),
           (KInt GPSLongitudeRef, PBytes [69]),
           (KInt GPSLongitude,
            PTuple [PTuple [PInt 20, PInt 1], PTuple [PInt 15, PInt 1], PTuple [PInt 0, PInt 100]]),
           (KInt GPSAltitudeRef, PInt 0),
           (KInt GPSAltitude, PTuple [PInt 500, PInt 100])]"
      spec_dms_zone2deg]
    has_gps_data_present [of
      "\<lparr>metadata = PDict [(k_GPS, PDict [(KInt GPSLatitudeRef, PBytes [78])])],
        filepath = None, temporal_keywords = []\<rparr>"
      "[(k_GPS, PDict [(KInt GPSLatitudeRef, PBytes [78])])]"
      "[(KInt GPSLatitudeRef, PBytes [78])]"
      spec_dms_zone2deg]
  by (simp add: GPSLatitude_def GPSLatitudeRef_def GPSLongitude_def GPSLongitudeRef_def
      GPSAltitude_def GPSAltitudeRef_def)

text \<open>
  As C7 is stated \<^verbatim>\<open>has_gps_data\<close> never raises, whatever the values of the tags.
  Only \<^verbatim>\<open>KeyError\<close> is caught: with the six tags present and the altitude \<^verbatim>\<open>(0, 0)\<close>
  it raises \<^verbatim>\<open>ZeroDivisionError\<close>; with a float for the latitude, \<^verbatim>\<open>TypeError\<close>; and with
  the degrees \<^verbatim>\<open>(10**400, 1)\<close>, whose quotient is no float, \<^verbatim>\<open>OverflowError\<close>.
\<close>

theorem has_gps_data_raises_counterexample:
  "has_gps_data spec_dms_zone2deg
     (\<lparr>metadata = PDict [(k_GPS, PDict
          [(KInt GPSLatitudeRef, PBytes [78]),
           (KInt GPSLatitude,
            PTuple [PTuple [PInt 10, PInt 1], PTuple [PInt 30, PInt 1], PTuple [PInt 0, PInt 100]]),
           (KInt GPSLongitudeRef, PBytes [69]),
           (KInt GPSLongitude,
            PTuple [PTuple [PInt 20, PInt 1], PTuple [PInt 15, PInt 1], PTuple [PInt 0, PInt 100]]),
           (KInt GPSAltitudeRef, PInt 0),
           (KInt GPSAltitude, PTuple [PInt 0, PInt 0])])],
        filepath = None, temporal_keywords = []\<rparr>) = Inl ZeroDivisionError \<and>
   has_gps_data spec_dms_zone2deg
     \<lparr>metadata = PDict [(k_GPS, PDict [(KInt GPSLatitudeRef, PBytes [78]),
                                          (KInt GPSLatitude, PFloat 10.5)])],
      filepath = None, temporal_keywords = []\<rparr> = Inl TypeError \<and>
   has_gps_data spec_dms_zone2deg
     \<lparr>metadata = PDict [(k_GPS, PDict
          [(KInt GPSLatitudeRef, PBytes [78]),
           (KInt GPSLatitude,
            PTuple [PTuple [PInt (10 ^ 400), PInt 1], PTuple [PInt 30, PInt 1],
                    PTuple [PInt 0, PInt 100]])])],
      filepath = None, temporal_keywords = []\<rparr> = Inl OverflowError"
  by (simp add: has_gps_data_def get_gps_data_def gps_tag_def gps2val_def quotient_at_def
      seq_index_def norm_index_def py_truediv_def float_div_def float_limit_def
      GPSLatitude_def GPSLatitudeRef_def GPSLongitude_def GPSLongitudeRef_def
      GPSAltitude_def GPSAltitudeRef_def)

subsection \<open>GPS data written and read back\<close>

lemmas gps_tags = GPSVersionID_def GPSLatitude_def GPSLatitudeRef_def GPSLongitude_def
  GPSLongitudeRef_def GPSAltitude_def GPSAltitudeRef_def

lemma spec_deg2dms_zone_10: "spec_deg2dms_zone 10 (lit ''N'', lit ''S'') = (10, 0, 0, lit ''N'')"
  by (simp add: spec_deg2dms_zone_def)

lemma spec_deg2dms_zone_20: "spec_deg2dms_zone 20 (lit ''E'', lit ''W'') = (20, 0, 0, lit ''E'')"
  by (simp add: spec_deg2dms_zone_def)

text \<open>
  C1. \<^verbatim>\<open>set_gps_data\<close> stores the zones as the strings \<^verbatim>\<open>'N'\<close> and \<^verbatim>\<open>'E'\<close>, and
  \<^verbatim>\<open>get_gps_data\<close> compares them with the bytes \<^verbatim>\<open>b'N'\<close> and \<^verbatim>\<open>b'E'\<close>, which no string
  equals: after \<^verbatim>\<open>set_gps_data(10.0, 20.0, 5.0, True)\<close> the manager reads back the
  latitude -10 and the longitude -20.
\<close>

theorem gps_roundtrip_flips_sign:
  "get_gps_data spec_dms_zone2deg
     (snd (set_gps_data spec_deg2dms_zone 10 20 5 True
        \<lparr>metadata = PDict [(k_GPS, PDict [])], filepath = None, temporal_keywords = []\<rparr>))
   = Inr (- 10, - 20, 5, True)"
  by (simp add: set_gps_data_def spec_deg2dms_zone_10 spec_deg2dms_zone_20 dms_tuple_def
      zone_of_def store_tag_def py_int_def get_gps_data_def gps_tag_def gps2val_def
      quotient_at_def seq_index_def norm_index_def py_truediv_def float_limit_def
      spec_dms_zone2deg_def
      gps_tags Let_def)

lemma set_gps_data_stores:
  assumes md: "metadata m = PDict md" and g: "map_of md k_GPS = Some (PDict g)"
  shows "\<exists>md' g'. metadata (snd (set_gps_data deg2dms_zone lat lon alt msl m)) = PDict md' \<and>
     map_of md' k_GPS = Some (PDict g') \<and>
     map_of g' (KInt GPSLatitudeRef) = Some (PStr (zone_of (deg2dms_zone lat (lit ''N'', lit ''S'')))) \<and>
     map_of g' (KInt GPSLongitudeRef) = Some (PStr (zone_of (deg2dms_zone lon (lit ''E'', lit ''W''))))"
  using assms
  by (simp add: set_gps_data_def Let_def store_tag_def map_of_dict_set gps_tags)

lemma stored_zone_never_positive: "py_eq_bytes (PStr z) b = False"
  by simp


text \<open>
  The same for every conversion of the library that returns a string as the zone and
  numbers of 32 bits: what is read back is computed with \<open>zone_positive = False\<close>
  for both coordinates.
\<close>

lemma get_after_set_gps_data:
  assumes md: "metadata m = PDict md" and g: "map_of md k_GPS = Some (PDict g)"
    and lat: "deg2dms_zone lat (lit ''N'', lit ''S'') = (d1, m1, s1, z1)"
    and lon: "deg2dms_zone lon (lit ''E'', lit ''W'') = (d2, m2, s2, z2)"
    and small: "\<bar>d1\<bar> < 2 ^ 32" "\<bar>m1\<bar> < 2 ^ 32" "\<bar>py_int (s1 * 100)\<bar> < 2 ^ 32"
      "\<bar>d2\<bar> < 2 ^ 32" "\<bar>m2\<bar> < 2 ^ 32" "\<bar>py_int (s2 * 100)\<bar> < 2 ^ 32"
      "\<bar>py_int (alt * 100)\<bar> < 2 ^ 32"
  shows "get_gps_data dms_zone2deg (snd (set_gps_data deg2dms_zone lat lon alt msl m))
         = Inr (dms_zone2deg (of_int d1) (of_int m1) (of_int (py_int (s1 * 100)) / 100) False,
                dms_zone2deg (of_int d2) (of_int m2) (of_int (py_int (s2 * 100)) / 100) False,
                of_int (py_int (alt * 100)) / 100, msl)"
  using assms
  by (simp add: set_gps_data_def Let_def store_tag_def map_of_dict_set gps_tags
      dms_tuple_def zone_of_def get_gps_data_def gps_tag_def gps2val_def
      quotient_at_def seq_index_def norm_index_def py_truediv_32)

subsection \<open>Dates that do not parse\<close>

lemma get_date_sentinel:
  assumes "py_getitem (metadata m) k_Exif = Inr exif"
    and "py_getitem exif (KInt tag) = Inr (PBytes b)"
    and "utf8_decode b = Inr s" and "str2datetime s = Inl e" and "is_ValueError e"
  shows "get_date tag str2datetime m = Inr sentinel"
  using assms by (simp add: get_date_def)

lemma has_date_dict:
  "metadata m = PDict md \<Longrightarrow> map_of md k_Exif = Some (PDict ifd) \<Longrightarrow>
   has_date tag m = Inr (map_of ifd (KInt tag) \<noteq> None)"
  by (simp add: has_date_def)

lemma get_date_dict:
  "metadata m = PDict md \<Longrightarrow> map_of md k_Exif = Some (PDict ifd) \<Longrightarrow>
   map_of ifd (KInt tag) = Some v \<Longrightarrow>
   get_date tag str2datetime m =
     (case bind_err (py_decode_utf8 v) str2datetime of
        Inl e \<Rightarrow> if is_ValueError e then Inr sentinel else Inl e
      | Inr d \<Rightarrow> Inr d)"
  by (simp add: get_date_def)

lemma valid_date_absent:
  assumes "metadata m = PDict md" and "map_of md k_Exif = Some (PDict ifd)"
    and "map_of ifd (KInt tag) = None"
  shows "bind_err (has_date tag m) (\<lambda>present.
       if present
       then bind_err (get_date tag str2datetime m) (\<lambda>d. Inr (year d \<noteq> 1))
       else Inr False) = Inr False"
  using assms by (simp add: has_date_dict)

lemma valid_date_unparsed:
  assumes "metadata m = PDict md" and "map_of md k_Exif = Some (PDict ifd)"
    and "map_of ifd (KInt tag) = Some (PBytes b)" and "utf8_decode b = Inr s"
    and "str2datetime s = Inl ValueError"
  shows "bind_err (has_date tag m) (\<lambda>present.
       if present
       then bind_err (get_date tag str2datetime m) (\<lambda>d. Inr (year d \<noteq> 1))
       else Inr False) = Inr False"
  using assms by (simp add: has_date_dict get_date_dict sentinel_def)

lemma valid_date_parsed:
  assumes "metadata m = PDict md" and "map_of md k_Exif = Some (PDict ifd)"
    and "map_of ifd (KInt tag) = Some (PBytes b)" and "utf8_decode b = Inr s"
    and "str2datetime s = Inr d"
  shows "get_date tag str2datetime m = Inr d"
    and "bind_err (has_date tag m) (\<lambda>present.
       if present
       then bind_err (get_date tag str2datetime m) (\<lambda>d. Inr (year d \<noteq> 1))
       else Inr False) = Inr (year d \<noteq> 1)"
  using assms by (simp_all add: has_date_dict get_date_dict)

lemma valid_date_iff:
  assumes md: "metadata m = PDict md" and ifd: "map_of md k_Exif = Some (PDict ifd)"
  shows "bind_err (has_date tag m) (\<lambda>present.
       if present
       then bind_err (get_date tag str2datetime m) (\<lambda>d. Inr (year d \<noteq> 1))
       else Inr False) = Inr True
   \<longleftrightarrow> (\<exists>b s d. map_of ifd (KInt tag) = Some (PBytes b) \<and>
            utf8_decode b = Inr s \<and> str2datetime s = Inr d \<and> year d \<noteq> 1)"
proof (cases "map_of ifd (KInt tag)")
  case None
  then show ?thesis by (simp add: has_date_dict [OF md ifd])
next
  case (Some v)
  note g = get_date_dict [OF md ifd Some, of str2datetime]
  show ?thesis
  proof (cases "py_decode_utf8 v")
    case (Inl e)
    then have "\<not> (\<exists>b s. v = PBytes b \<and> utf8_decode b = Inr s)" by auto
    with Some Inl show ?thesis
      by (auto simp: has_date_dict [OF md ifd] g sentinel_def)
  next
    case (Inr s)
    then obtain b where v: "v = PBytes b" "utf8_decode b = Inr s"
      by (cases v) auto
    show ?thesis
    proof (cases "str2datetime s")
      case (Inl e)
      with Some v Inr show ?thesis
        by (auto simp: has_date_dict [OF md ifd] g sentinel_def)
    next
      case parsed: (Inr d)
      with Some v Inr show ?thesis
        by (auto simp: has_date_dict [OF md ifd] g)
    qed
  qed
qed

text \<open>
  C4. When the date tag of \<^verbatim>\<open>'Exif'\<close> holds bytes that decode as UTF-8 to a text on
  which \<^verbatim>\<open>convert.str2datetime\<close> raises \<^verbatim>\<open>ValueError\<close>, the date getter returns
  \<^verbatim>\<open>datetime(1, 1, 1)\<close> and does not raise. When \<^verbatim>\<open>'Exif'\<close> is a dictionary,
  \<^verbatim>\<open>has_valid_date_original\<close> is true exactly when the tag holds bytes that decode to a
  text that parses to a date whose year is not 1: it is false without the tag, false
  for a text that does not parse, and for a text that parses the getter returns the
  parsed date. The same for \<^verbatim>\<open>DateTimeDigitized\<close>. The parser is any function
  \<open>str2datetime\<close>.
\<close>

theorem invalid_date_sentinel:
  "(py_getitem (metadata m) k_Exif = Inr exif \<and>
    py_getitem exif (KInt DateTimeOriginal) = Inr (PBytes b) \<and>
    utf8_decode b = Inr s \<and> str2datetime s = Inl ValueError
      \<longrightarrow> get_date_original str2datetime m = Inr sentinel) \<and>
   (metadata m = PDict md \<and> map_of md k_Exif = Some (PDict ifd) \<longrightarrow>
      (has_valid_date_original str2datetime m = Inr True \<longleftrightarrow>
         (\<exists>b s d. map_of ifd (KInt DateTimeOriginal) = Some (PBytes b) \<and>
            utf8_decode b = Inr s \<and> str2datetime s = Inr d \<and> year d \<noteq> 1)) \<and>
      (map_of ifd (KInt DateTimeOriginal) = None \<longrightarrow>
         has_valid_date_original str2datetime m = Inr False) \<and>
      (\<forall>b s. map_of ifd (KInt DateTimeOriginal) = Some (PBytes b) \<and>
           utf8_decode b = Inr s \<and> str2datetime s = Inl ValueError \<longrightarrow>
         has_valid_date_original str2datetime m = Inr False) \<and>
      (\<forall>b s d. map_of ifd (KInt DateTimeOriginal) = Some (PBytes b) \<and>
           utf8_decode b = Inr s \<and> str2datetime s = Inr d \<longrightarrow>
         get_date_original str2datetime m = Inr d \<and>
         has_valid_date_original str2datetime m = Inr (year d \<noteq> 1))) \<and>
   (py_getitem (metadata m) k_Exif = Inr exif \<and>
    py_getitem exif (KInt DateTimeDigitized) = Inr (PBytes b) \<and>
    utf8_decode b = Inr s \<and> str2datetime s = Inl ValueError
      \<longrightarrow> get_date_digitized str2datetime m = Inr sentinel) \<and>
   (metadata m = PDict md \<and> map_of md k_Exif = Some (PDict ifd) \<longrightarrow>
      (has_valid_date_digitized str2datetime m = Inr True \<longleftrightarrow>
         (\<exists>b s d. map_of ifd (KInt DateTimeDigitized) = Some (PBytes b) \<and>
            utf8_decode b = Inr s \<and> str2datetime s = Inr d \<and> year d \<noteq> 1)) \<and>
      (map_of ifd (KInt DateTimeDigitized) = None \<longrightarrow>
         has_valid_date_digitized str2datetime m = Inr False) \<and>
      (\<forall>b s. map_of ifd (KInt DateTimeDigitized) = Some (PBytes b) \<and>
           utf8_decode b = Inr s \<and> str2datetime s = Inl ValueError \<longrightarrow>
         has_valid_date_digitized str2datetime m = Inr False) \<and>
      (\<forall>b s d. map_of ifd (KInt DateTimeDigitized) = Some (PBytes b) \<and>
           utf8_decode b = Inr s \<and> str2datetime s = Inr d \<longrightarrow>
         get_date_digitized str2datetime m = Inr d \<and>
         has_valid_date_digitized str2datetime m = Inr (year d \<noteq> 1)))"
proof -
  have a: "py_getitem (metadata m) k_Exif = Inr exif \<and>
      py_getitem exif (KInt tag) = Inr (PBytes b) \<and>
      utf8_decode b = Inr s \<and> str2datetime s = Inl ValueError
      \<longrightarrow> get_date tag str2datetime m = Inr sentinel" for tag
    by (auto intro: get_date_sentinel [where e = ValueError])
  show ?thesis
    unfolding has_valid_date_original_def has_date_original_def get_date_original_def
      has_valid_date_digitized_def has_date_digitized_def get_date_digitized_def
    using a [of DateTimeOriginal] a [of DateTimeDigitized]
    by (auto simp: valid_date_iff valid_date_absent valid_date_unparsed valid_date_parsed)
qed

theorem invalid_date_sentinel_witness:
  "get_date_original spec_str2datetime
     (\<lparr>metadata = PDict [(k_Exif, PDict [(KInt DateTimeOriginal, PBytes
          [110, 111, 116, 32, 97, 32, 100, 97, 116, 101])])],
        filepath = None, temporal_keywords = []\<rparr>) = Inr sentinel \<and>
   has_valid_date_original spec_str2datetime
     (\<lparr>metadata = PDict [(k_Exif, PDict [(KInt DateTimeOriginal, PBytes
          [110, 111, 116, 32, 97, 32, 100, 97, 116, 101])])],
        filepath = None, temporal_keywords = []\<rparr>) = Inr False \<and>
   get_date_original spec_str2datetime
     (\<lparr>metadata = PDict [(k_Exif, PDict [(KInt DateTimeOriginal, PBytes
          [50, 48, 50, 48, 58, 48, 49, 58, 48, 50, 32, 48, 51, 58, 48, 52, 58, 48, 53])])],
        filepath = None, temporal_keywords = []\<rparr>)
   = Inr \<lparr>year = 2020, month = 1, day = 2, hour = 3, minute = 4, second = 5\<rparr> \<and>
   has_valid_date_original spec_str2datetime
     (\<lparr>metadata = PDict [(k_Exif, PDict [(KInt DateTimeOriginal, PBytes
          [50, 48, 50, 48, 58, 48, 49, 58, 48, 50, 32, 48, 51, 58, 48, 52, 58, 48, 53])])],
        filepath = None, temporal_keywords = []\<rparr>) = Inr True \<and>
   has_valid_date_digitized spec_str2datetime
     (\<lparr>metadata = PDict [(k_Exif, PDict [(KInt DateTimeOriginal, PBytes
          [50, 48, 50, 48, 58, 48, 49, 58, 48, 50, 32, 48, 51, 58, 48, 52, 58, 48, 53])])],
        filepath = None, temporal_keywords = []\<rparr>) = Inr False"
  using invalid_date_sentinel [of
      "\<lparr>metadata = PDict [(k_Exif, PDict [(KInt DateTimeOriginal, PBytes
          [110, 111, 116, 32, 97, 32, 100, 97, 116, 101])])],
        filepath = None, temporal_keywords = []\<rparr>"
      "PDict [(KInt DateTimeOriginal, PBytes [110, 111, 116, 32, 97, 32, 100, 97, 116, 101])]"
      "[110, 111, 116, 32, 97, 32, 100, 97, 116, 101]" "lit ''not a date''" spec_str2datetime
      "[(k_Exif, PDict [(KInt DateTimeOriginal, PBytes [110, 111, 116, 32, 97, 32, 100, 97, 116, 101])])]"
      "[(KInt DateTimeOriginal, PBytes [110, 111, 116, 32, 97, 32, 100, 97, 116, 101])]"]
    invalid_date_sentinel [where m =
      "\<lparr>metadata = PDict [(k_Exif, PDict [(KInt DateTimeOriginal, PBytes
          [50, 48, 50, 48, 58, 48, 49, 58, 48, 50, 32, 48, 51, 58, 48, 52, 58, 48, 53])])],
        filepath = None, temporal_keywords = []\<rparr>"
      and str2datetime = spec_str2datetime
      and md = "[(k_Exif, PDict [(KInt DateTimeOriginal, PBytes [50, 48, 50, 48, 58, 48, 49, 58, 48, 50, 32, 48, 51, 58, 48, 52, 58, 48, 53])])]"
      and ifd = "[(KInt DateTimeOriginal, PBytes [50, 48, 50, 48, 58, 48, 49, 58, 48, 50, 32, 48, 51, 58, 48, 52, 58, 48, 53])]"]
  by (simp add: has_valid_date_original_def has_date_original_def has_date_def
      has_valid_date_digitized_def has_date_digitized_def get_date_digitized_def
      get_date_original_def get_date_def utf8_decode_def spec_str2datetime_def
      days_in_month_def sentinel_def lit_def DateTimeOriginal_def DateTimeDigitized_def)

subsection \<open>The basic keys after loading\<close>

lemma copy_entries_dict:
  "set ks \<subseteq> fst ` set dd \<Longrightarrow>
   \<exists>e'. copy_entries dd ks (PDict e) = Inr (PDict e') \<and>
     (\<forall>k. map_of e' k = (if k \<in> set ks \<and> k \<noteq> k_exif then map_of dd k else map_of e k))"
proof (induction ks arbitrary: e)
  case Nil
  then show ?case by simp
next
  case (Cons k ks)
  show ?case
  proof (cases "k = k_exif")
    case True
    with Cons.IH [of e] Cons.prems show ?thesis by auto
  next
    case False
    from Cons.prems have "k \<in> fst ` set dd" by simp
    then obtain v where v: "map_of dd k = Some v"
      by (cases "map_of dd k") (auto simp: map_of_eq_None_iff)
    from Cons.prems have "set ks \<subseteq> fst ` set dd" by simp
    from Cons.IH [OF this, of "dict_set e k v"] obtain e' where
      e': "copy_entries dd ks (PDict (dict_set e k v)) = Inr (PDict e')"
      "\<forall>k'. map_of e' k' =
         (if k' \<in> set ks \<and> k' \<noteq> k_exif then map_of dd k' else map_of (dict_set e k v) k')"
      by blast
    have "copy_entries dd (k # ks) (PDict e) = Inr (PDict e')"
      using False v e'(1) by simp
    moreover have "\<forall>k'. map_of e' k' =
        (if k' \<in> set (k # ks) \<and> k' \<noteq> k_exif then map_of dd k' else map_of e k')"
      using e'(2) v False by (auto simp: map_of_dict_set)
    ultimately show ?thesis by blast
  qed
qed

lemma add_basic_dict:
  "\<exists>e'. add_basic ks (PDict e) = Inr (PDict e') \<and>
     (\<forall>k. map_of e' k =
        (if k \<in> set ks \<and> map_of e k = None then Some (PDict []) else map_of e k))"
proof (induction ks arbitrary: e)
  case Nil
  then show ?case by simp
next
  case (Cons k ks)
  show ?case
  proof (cases "map_of e k")
    case None
    from Cons.IH [of "dict_set e k (PDict [])"] obtain e' where
      e': "add_basic ks (PDict (dict_set e k (PDict []))) = Inr (PDict e')"
      "\<forall>k'. map_of e' k' =
         (if k' \<in> set ks \<and> map_of (dict_set e k (PDict [])) k' = None then Some (PDict [])
          else map_of (dict_set e k (PDict [])) k')"
      by blast
    have "add_basic (k # ks) (PDict e) = Inr (PDict e')"
      using None e'(1) by simp
    moreover have "\<forall>k'. map_of e' k' =
        (if k' \<in> set (k # ks) \<and> map_of e k' = None then Some (PDict []) else map_of e k')"
      using e'(2) None by (auto simp: map_of_dict_set)
    ultimately show ?thesis by blast
  next
    case (Some v)
    from Cons.IH [of e] obtain e' where
      e': "add_basic ks (PDict e) = Inr (PDict e')"
      "\<forall>k'. map_of e' k' =
         (if k' \<in> set ks \<and> map_of e k' = None then Some (PDict []) else map_of e k')"
      by blast
    have "add_basic (k # ks) (PDict e) = Inr (PDict e')"
      using Some e'(1) by simp
    moreover have "\<forall>k'. map_of e' k' =
        (if k' \<in> set (k # ks) \<and> map_of e k' = None then Some (PDict []) else map_of e k')"
      using e'(2) Some by auto
    ultimately show ?thesis by blast
  qed
qed

lemma load_exif_data_dict:
  assumes "e0 = (case map_of dd k_exif of Some v \<Rightarrow> v | None \<Rightarrow> PDict [])"
    and "e0 = PDict ex"
  shows "\<exists>md'. load_exif_data dd True = Inr (PDict md') \<and>
     (\<forall>k. map_of md' k =
        (let merged = (if k \<noteq> k_exif \<and> map_of dd k \<noteq> None then map_of dd k else map_of ex k)
         in if k \<in> set kwds2add \<and> merged = None then Some (PDict []) else merged))"
proof -
  have "set (map fst dd) \<subseteq> fst ` set dd" by simp
  from copy_entries_dict [OF this, of ex] obtain e1 where
    e1: "copy_entries dd (map fst dd) (PDict ex) = Inr (PDict e1)"
    "\<forall>k. map_of e1 k = (if k \<in> set (map fst dd) \<and> k \<noteq> k_exif then map_of dd k else map_of ex k)"
    by blast
  from add_basic_dict [of kwds2add e1] obtain e2 where
    e2: "add_basic kwds2add (PDict e1) = Inr (PDict e2)"
    "\<forall>k. map_of e2 k =
        (if k \<in> set kwds2add \<and> map_of e1 k = None then Some (PDict []) else map_of e1 k)"
    by blast
  have mem: "k \<in> set (map fst dd) \<longleftrightarrow> map_of dd k \<noteq> None" for k
    by (simp add: map_of_eq_None_iff)
  have "load_exif_data dd True = Inr (PDict e2)"
    using assms e1(1) e2(1) by (simp add: load_exif_data_def)
  moreover have "\<forall>k. map_of e2 k =
        (let merged = (if k \<noteq> k_exif \<and> map_of dd k \<noteq> None then map_of dd k else map_of ex k)
         in if k \<in> set kwds2add \<and> merged = None then Some (PDict []) else merged)"
    using e1(2) e2(2) mem by (auto simp: Let_def)
  ultimately show ?thesis by blast
qed

lemma copy_entries_bytes:
  "(\<exists>e. copy_entries dd ks (PBytes b) = Inl e) \<or> copy_entries dd ks (PBytes b) = Inr (PBytes b)"
  by (induction ks) (auto split: option.splits)

lemma load_exif_data_bytes:
  assumes "map_of dd k_exif = Some (PBytes b)"
  shows "\<exists>e. load_exif_data dd True = Inl e"
  using assms copy_entries_bytes [of dd "map fst dd" b]
  by (auto simp: load_exif_data_def kwds2add_def k_Exif_def)


lemma load_file_success:
  assumes "load_file load_metadata path m = (Inr (), m')"
    and "load_metadata path = Inr data_dict"
  shows "\<exists>md. load_exif_data data_dict True = Inr md \<and> metadata m' = md \<and>
           filepath m' = Some path \<and> temporal_keywords m' = []"
  using assms
  by (auto simp: load_file_def Let_def split: if_splits sum.splits)

text \<open>
  C5, as amended. When \<^verbatim>\<open>load_file\<close> returns without raising, and the \<^verbatim>\<open>'exif'\<close> entry
  of what was read, if there is one, is the dictionary piexif made of it or the bytes
  Pillow read: the metadata is a dictionary with the four keys \<^verbatim>\<open>'Exif'\<close>, \<^verbatim>\<open>'0th'\<close>,
  \<^verbatim>\<open>'1st'\<close> and \<^verbatim>\<open>'GPS'\<close>; such a key is the empty dictionary when it is neither a
  key of what was read nor a key of its \<^verbatim>\<open>'exif'\<close> dictionary; an entry of the
  \<^verbatim>\<open>'exif'\<close> dictionary is an entry of the metadata unless its key is another key of
  what was read; and every entry of what was read but \<^verbatim>\<open>'exif'\<close> is an entry of the
  metadata.
\<close>

theorem load_file_basic_keys:
  assumes ok: "load_file load_metadata path m = (Inr (), m')"
    and dd: "load_metadata path = Inr data_dict"
    and ex: "\<forall>v. map_of data_dict k_exif = Some v \<longrightarrow> (\<exists>d. v = PDict d) \<or> (\<exists>b. v = PBytes b)"
  shows "\<exists>md'. metadata m' = PDict md' \<and>
     map_of md' k_Exif \<noteq> None \<and> map_of md' k_0th \<noteq> None \<and>
     map_of md' k_1st \<noteq> None \<and> map_of md' k_GPS \<noteq> None \<and>
     (\<forall>k\<in>set kwds2add.
        map_of data_dict k = None \<and>
        (\<forall>exif. map_of data_dict k_exif = Some (PDict exif) \<longrightarrow> map_of exif k = None)
        \<longrightarrow> map_of md' k = Some (PDict [])) \<and>
     (\<forall>exif k v.
        map_of data_dict k_exif = Some (PDict exif) \<and> map_of exif k = Some v \<and>
        (k = k_exif \<or> map_of data_dict k = None)
        \<longrightarrow> map_of md' k = Some v) \<and>
     (\<forall>k v. k \<noteq> k_exif \<and> map_of data_dict k = Some v \<longrightarrow> map_of md' k = Some v)"
proof -
  from load_file_success [OF ok dd] obtain md where
    md: "load_exif_data data_dict True = Inr md" "metadata m' = md" by blast
  define e0 where "e0 = (case map_of data_dict k_exif of Some v \<Rightarrow> v | None \<Rightarrow> PDict [])"
  have "\<exists>d. e0 = PDict d"
  proof (cases "map_of data_dict k_exif")
    case None
    then show ?thesis by (simp add: e0_def)
  next
    case (Some v)
    with ex have "(\<exists>d. v = PDict d) \<or> (\<exists>b. v = PBytes b)" by simp
    moreover have "\<not> (\<exists>b. v = PBytes b)"
      using load_exif_data_bytes [of data_dict] md(1) Some by auto
    ultimately show ?thesis using Some by (auto simp: e0_def)
  qed
  then obtain d where d: "e0 = PDict d" by blast
  from load_exif_data_dict [OF e0_def d] md(1) obtain md' where
    md': "md = PDict md'"
    and ch: "\<And>k. map_of md' k =
        (let merged = (if k \<noteq> k_exif \<and> map_of data_dict k \<noteq> None then map_of data_dict k
                       else map_of d k)
         in if k \<in> set kwds2add \<and> merged = None then Some (PDict []) else merged)"
    by auto
  have basic: "map_of md' k \<noteq> None" if "k \<in> set kwds2add" for k
    using that by (simp add: ch Let_def)
  have absent: "map_of md' k = Some (PDict [])"
    if "k \<in> set kwds2add" "map_of data_dict k = None"
      "\<forall>exif. map_of data_dict k_exif = Some (PDict exif) \<longrightarrow> map_of exif k = None" for k
  proof -
    have "map_of d k = None"
    proof (cases "map_of data_dict k_exif")
      case None
      with d show ?thesis by (simp add: e0_def)
    next
      case (Some v)
      with d have "v = PDict d" by (simp add: e0_def)
      with Some that(3) show ?thesis by simp
    qed
    with that(1,2) show ?thesis by (simp add: ch Let_def)
  qed
  have merged: "map_of md' k = Some v"
    if "map_of data_dict k_exif = Some (PDict exif)" "map_of exif k = Some v"
      "k = k_exif \<or> map_of data_dict k = None" for exif k v
  proof -
    from that(1) d have "d = exif" by (simp add: e0_def)
    with that(2,3) show ?thesis by (auto simp: ch Let_def)
  qed
  have top: "map_of md' k = Some v" if "k \<noteq> k_exif" "map_of data_dict k = Some v" for k v
    using that by (simp add: ch Let_def)
  have "map_of md' k_Exif \<noteq> None" "map_of md' k_0th \<noteq> None"
    "map_of md' k_1st \<noteq> None" "map_of md' k_GPS \<noteq> None"
    by (rule basic, simp add: kwds2add_def)+
  with md(2) md' absent merged top show ?thesis by blast
qed


lemmas load_eval = load_file_def path_suffix_def path_name_def upper_def upper_cp_def
  READABLE_EXTENSIONS_def EDITABLE_EXTENSIONS_def load_exif_data_def kwds2add_def
  k_exif_def k_Exif_def k_0th_def k_1st_def k_GPS_def lit_def init_def

theorem load_file_basic_keys_witness:
  "load_file
     (\<lambda>f. Inr [(k_exif, PDict [(k_0th, PDict [(KInt Make, PBytes [78])]), (k_GPS, PDict [])]),
        (KStr (lit ''dpi''), PTuple [PInt 72, PInt 72])])
     (lit ''a.jpg'') init
   = (Inr (),
      \<lparr>metadata = PDict [(k_0th, PDict [(KInt Make, PBytes [78])]), (k_GPS, PDict []),
                         (KStr (lit ''dpi''), PTuple [PInt 72, PInt 72]),
                         (k_Exif, PDict []), (k_1st, PDict [])],
       filepath = Some (lit ''a.jpg''), temporal_keywords = []\<rparr>)"
  using load_file_basic_keys [of
      "\<lambda>f. Inr [(k_exif, PDict [(k_0th, PDict [(KInt Make, PBytes [78])]), (k_GPS, PDict [])]),
        (KStr (lit ''dpi''), PTuple [PInt 72, PInt 72])]"
      "lit ''a.jpg''" init
      "\<lparr>metadata = PDict [(k_0th, PDict [(KInt Make, PBytes [78])]), (k_GPS, PDict []),
                         (KStr (lit ''dpi''), PTuple [PInt 72, PInt 72]),
                         (k_Exif, PDict []), (k_1st, PDict [])],
       filepath = Some (lit ''a.jpg''), temporal_keywords = []\<rparr>"
      "[(k_exif, PDict [(k_0th, PDict [(KInt Make, PBytes [78])]), (k_GPS, PDict [])]),
        (KStr (lit ''dpi''), PTuple [PInt 72, PInt 72])]"]
  by (simp add: load_eval)

text \<open>
  As C5 is stated every entry of the \<^verbatim>\<open>'exif'\<close> dictionary appears in the metadata, and
  the metadata has the four keys after every load that succeeds. A PNG text chunk
  named \<^verbatim>\<open>GPS\<close> is an entry of what was read that replaces the \<^verbatim>\<open>'GPS'\<close> dictionary of
  \<^verbatim>\<open>'exif'\<close>; and a text chunk named \<^verbatim>\<open>exif\<close> whose text holds the four names is
  returned as the metadata, which is then a string.
\<close>

theorem load_file_merge_counterexample:
  "load_file
     (\<lambda>f. Inr [(k_exif, PDict [(k_GPS, PDict [(KInt GPSLatitudeRef, PBytes [78])])]),
                (k_GPS, PStr (lit ''text''))])
     (lit ''a.png'') init
   = (Inr (),
      \<lparr>metadata = PDict [(k_GPS, PStr (lit ''text'')), (k_Exif, PDict []), (k_0th, PDict []),
                         (k_1st, PDict [])],
       filepath = Some (lit ''a.png''), temporal_keywords = []\<rparr>) \<and>
   load_file (\<lambda>f. Inr [(k_exif, PStr (lit ''Exif 0th 1st GPS''))]) (lit ''a.png'') init
   = (Inr (),
      \<lparr>metadata = PStr (lit ''Exif 0th 1st GPS''),
       filepath = Some (lit ''a.png''), temporal_keywords = []\<rparr>)"
  by (simp add: load_eval)

end
